theory Spec2Isabelle
  imports
    Main
    "HOL-Library.AList"
    "HOL-Library.Char_ord"
    "HOL-Library.List_Lexorder"
    "HOL-Library.Sublist"
begin

section \<open>Values, rows and exceptions\<close>

text \<open>
  The development embeds the query and data-refresh layer of \<^verbatim>\<open>UTILIDADE.PY\<close>:
  \<^verbatim>\<open>get_db_connection\<close>, \<^verbatim>\<open>run_query\<close>, \<^verbatim>\<open>load_all_data\<close>, \<^verbatim>\<open>refresh_data\<close>, and the
  blocks of \<^verbatim>\<open>menu_page\<close>, \<^verbatim>\<open>home_page\<close> and \<^verbatim>\<open>orders_page\<close> that call them.
  Python values that travel between the program and PostgreSQL are cells; a fetched
  row is a tuple of cells.
\<close>

record datetime =
  dt_year :: nat
  dt_month :: nat
  dt_day :: nat
  dt_hour :: nat
  dt_minute :: nat
  dt_second :: nat
  dt_microsecond :: nat

datatype val = VStr string | VInt int | VTime datetime | VNull

type_synonym row = "val list"

text \<open>
  The exceptions the modelled paths can raise. \<open>InterfaceError\<close> is what psycopg2
  raises for any operation on a connection that has been closed; \<open>OperationalError\<close>
  stands for a connection lost while a statement runs, after which the connection is
  closed; \<open>DatabaseError\<close> for a statement the server refuses; \<open>ProgrammingError\<close>
  for a statement the server does not know, a wrong number of parameters, or
  \<^verbatim>\<open>fetchall\<close> without a result set; \<open>ExportError\<close> for whatever the PDF library
  raises.
\<close>

datatype exn =
  InterfaceError | OperationalError | DatabaseError | ProgrammingError
  | IndexError | ValueError | AttributeError | TypeError | ExportError

text \<open>What \<^verbatim>\<open>run_query\<close> returns: \<^verbatim>\<open>None\<close>, \<^verbatim>\<open>True\<close> or the fetched rows.\<close>

datatype qresult = RNone | RTrue | Rows "row list"

text \<open>Python truthiness of such a value (\<^verbatim>\<open>if success:\<close>, \<^verbatim>\<open>x or []\<close>).\<close>

fun truthy :: "qresult \<Rightarrow> bool" where
  "truthy RNone = False"
| "truthy RTrue = True"
| "truthy (Rows rs) = (rs \<noteq> [])"

text \<open>
  \<^verbatim>\<open>x or []\<close> for a read result. A read (\<^verbatim>\<open>commit=False\<close>) never returns \<^verbatim>\<open>True\<close>
  (lemma \<open>run_query_read_not_true\<close>), so that case is never taken; it is mapped to
  the empty list.
\<close>

fun or_empty :: "qresult \<Rightarrow> row list" where
  "or_empty (Rows rs) = rs"
| "or_empty RNone = []"
| "or_empty RTrue = []"

text \<open>\<^verbatim>\<open>[row[i] for row in rows]\<close>: a row that is too short raises IndexError.\<close>

fun column :: "nat \<Rightarrow> row list \<Rightarrow> exn + val list" where
  "column i [] = Inr []"
| "column i (r # rs) =
     (if i < length r
      then (case column i rs of Inl e \<Rightarrow> Inl e | Inr vs \<Rightarrow> Inr (r ! i # vs))
      else Inl IndexError)"

section \<open>The statements the program issues\<close>

text \<open>
  Each statement is the literal of the source, character for character; the
  triple-quoted ones keep their line breaks and indentation. The two non-ASCII
  letters of the stock query's column name are written as their UTF-8 bytes.
\<close>

definition orders_query :: string where
  \<open>orders_query =
     ''SELECT "Cliente", "Produto", "Quantidade", "Data", status '' @
     ''FROM public.tb_pedido ORDER BY "Data" DESC''\<close>

definition products_query :: string where
  \<open>products_query =
     ''SELECT supplier, product, quantity, unit_value, total_value, creation_date '' @
     ''FROM public.tb_products ORDER BY creation_date DESC''\<close>

definition clients_query :: string where
  \<open>clients_query =
     ''SELECT DISTINCT "Cliente" '' @
     ''FROM public.tb_pedido ORDER BY "Cliente"''\<close>

definition stock_query :: string where
  \<open>stock_query =
     ''SELECT "Produto", "Quantidade", "Transa'' @
     [CHR 0xC3, CHR 0xA7, CHR 0xC3, CHR 0xA3] @ ''o", "Data" '' @
     ''FROM public.tb_estoque ORDER BY "Data" DESC''\<close>

definition customers_query :: string where
  \<open>customers_query =
     ''SELECT nome_completo FROM public.tb_clientes ORDER BY nome_completo''\<close>

definition categories_query :: string where
  \<open>categories_query =
     ''SELECT DISTINCT categoria FROM public.tb_products ORDER BY categoria''\<close>

definition menu_products_query :: string where
  \<open>menu_products_query =
     ''\<newline>            SELECT product, description, price '' @
     ''\<newline>            FROM public.tb_products '' @
     ''\<newline>            WHERE categoria = %s'' @
     ''\<newline>        ''\<close>

definition insert_query :: string where
  \<open>insert_query =
     ''\<newline>                INSERT INTO public.tb_pedido ("Cliente", "Produto", "Quantidade", "Data", status)'' @
     ''\<newline>                VALUES (%s, %s, %s, %s, 'em aberto')'' @
     ''\<newline>            ''\<close>

definition stock_vs_orders_query :: string where
  \<open>stock_vs_orders_query =
     ''\<newline>                SELECT product, stock_quantity, orders_quantity, total_in_stock'' @
     ''\<newline>                FROM public.vw_stock_vs_orders_summary'' @
     ''\<newline>            ''\<close>

section \<open>The database\<close>

text \<open>
  The relations of the schema the program depends on, with typed columns (no NULLs).
  \<open>reachable\<close> says whether \<^verbatim>\<open>psycopg2.connect\<close> succeeds; \<open>breaks\<close> marks the
  statements during which the connection is lost; \<open>rejects\<close> marks the statements
  the server refuses for reasons outside the relations below (a constraint, a missing
  relation, a permission); \<open>coerce\<close> is the row the server makes of INSERT parameters
  that are not of the column types, by its casts, or \<open>None\<close> where it refuses them.
  The stock-versus-orders view is computed by the database; it is held as its rows.
  A commit that fails is not modelled.
\<close>

record pedido =
  p_Cliente :: string
  p_Produto :: string
  p_Quantidade :: int
  p_Data :: datetime
  p_status :: string

record product =
  pr_supplier :: val
  pr_product :: string
  pr_quantity :: val
  pr_unit_value :: val
  pr_total_value :: val
  pr_creation_date :: datetime
  pr_categoria :: string
  pr_description :: val
  pr_price :: val

record estoque =
  e_Produto :: string
  e_Quantidade :: int
  e_Transacao :: string
  e_Data :: datetime

record stock_vs_orders =
  sv_product :: string
  sv_stock_quantity :: int
  sv_orders_quantity :: int
  sv_total_in_stock :: int

record database =
  reachable :: bool
  breaks :: "string \<Rightarrow> val list \<Rightarrow> bool"
  rejects :: "string \<Rightarrow> val list \<Rightarrow> bool"
  coerce :: "val list \<Rightarrow> pedido option"
  tb_pedido :: "pedido list"
  tb_products :: "product list"
  tb_clientes :: "string list"
  tb_estoque :: "estoque list"
  vw_stock_vs_orders_summary :: "stock_vs_orders list"

text \<open>Timestamps are ordered field by field, lexicographically.\<close>

definition dt_key :: "datetime \<Rightarrow> nat list" where
  "dt_key d =
     [dt_year d, dt_month d, dt_day d, dt_hour d, dt_minute d, dt_second d, dt_microsecond d]"

text \<open>
  \<^verbatim>\<open>ORDER BY k DESC\<close>. SQL leaves the order of rows with equal keys open; here they
  keep the order of the table.
\<close>

definition order_by_desc :: "('a \<Rightarrow> nat list) \<Rightarrow> 'a list \<Rightarrow> 'a list" where
  "order_by_desc k xs = rev (sort_key k (rev xs))"

definition pedido_row :: "pedido \<Rightarrow> row" where
  "pedido_row p =
     [VStr (p_Cliente p), VStr (p_Produto p), VInt (p_Quantidade p), VTime (p_Data p),
      VStr (p_status p)]"

definition product_row :: "product \<Rightarrow> row" where
  "product_row p =
     [pr_supplier p, VStr (pr_product p), pr_quantity p, pr_unit_value p, pr_total_value p,
      VTime (pr_creation_date p)]"

definition estoque_row :: "estoque \<Rightarrow> row" where
  "estoque_row e =
     [VStr (e_Produto e), VInt (e_Quantidade e), VStr (e_Transacao e), VTime (e_Data e)]"

definition stock_vs_orders_row :: "stock_vs_orders \<Rightarrow> row" where
  "stock_vs_orders_row s =
     [VStr (sv_product s), VInt (sv_stock_quantity s), VInt (sv_orders_quantity s),
      VInt (sv_total_in_stock s)]"

text \<open>
  The row the INSERT adds: the four parameters, the status literal of the statement
  text. The quantity column is a 32-bit integer: a quantity outside its range is
  refused. What becomes of parameters of other types is the server's.
\<close>

definition inserted_pedido :: "database \<Rightarrow> val list \<Rightarrow> pedido option" where
  "inserted_pedido d vs =
     (case vs of
        [VStr c, VStr p, VInt n, VTime t] \<Rightarrow>
          (if - 2147483648 \<le> n \<and> n \<le> 2147483647
           then Some \<lparr>p_Cliente = c, p_Produto = p, p_Quantidade = n, p_Data = t,
                      p_status = ''em aberto''\<rparr>
           else None)
      | _ \<Rightarrow> coerce d vs)"

text \<open>
  \<^verbatim>\<open>SELECT ...\<close> without placeholders: psycopg2 sends the text as it is and ignores
  the parameter tuple.
\<close>

definition select_rows :: "database \<Rightarrow> row list \<Rightarrow> exn + (row list option \<times> database)" where
  "select_rows d rs = Inr (Some rs, d)"

text \<open>
  What the server does with one statement: the result set (\<open>None\<close> for a statement
  that returns no rows) and the database as the open transaction sees it.
\<close>

definition db_execute ::
  "database \<Rightarrow> string \<Rightarrow> val list \<Rightarrow> exn + (row list option \<times> database)" where
  "db_execute d q vs =
     (if breaks d q vs then Inl OperationalError
      else if rejects d q vs then Inl DatabaseError
      else if q = orders_query then
        select_rows d (map pedido_row (order_by_desc (\<lambda>p. dt_key (p_Data p)) (tb_pedido d)))
      else if q = products_query then
        select_rows d
          (map product_row (order_by_desc (\<lambda>p. dt_key (pr_creation_date p)) (tb_products d)))
      else if q = clients_query then
        select_rows d (map (\<lambda>c. [VStr c]) (sort (remdups (map p_Cliente (tb_pedido d)))))
      else if q = stock_query then
        select_rows d (map estoque_row (order_by_desc (\<lambda>e. dt_key (e_Data e)) (tb_estoque d)))
      else if q = customers_query then
        select_rows d (map (\<lambda>n. [VStr n]) (sort (tb_clientes d)))
      else if q = categories_query then
        select_rows d (map (\<lambda>c. [VStr c]) (sort (remdups (map pr_categoria (tb_products d)))))
      else if q = stock_vs_orders_query then
        select_rows d (map stock_vs_orders_row (vw_stock_vs_orders_summary d))
      else if q = menu_products_query then
        (case vs of
           [VStr c] \<Rightarrow>
             Inr (Some (map (\<lambda>p. [VStr (pr_product p), pr_description p, pr_price p])
                          (filter (\<lambda>p. pr_categoria p = c) (tb_products d))), d)
         | [VNull] \<Rightarrow> Inr (Some [], d)
         | _ \<Rightarrow> Inl ProgrammingError)
      else if q = insert_query then
        (case inserted_pedido d vs of
           Some p \<Rightarrow> Inr (None, d\<lparr>tb_pedido := tb_pedido d @ [p]\<rparr>)
         | None \<Rightarrow> Inl DatabaseError)
      else Inl ProgrammingError)"

section \<open>The process state\<close>

text \<open>
  \<open>conn_cache\<close> is the entry \<^verbatim>\<open>@st.cache_resource\<close> keeps for \<^verbatim>\<open>get_db_connection\<close>
  (a function without arguments has one entry): nothing yet, the value \<^verbatim>\<open>None\<close>, or
  the connection object, which is open or closed. The connection object is reachable
  only through this entry, so its state is kept with it. \<open>data_cache\<close> is the entry
  \<^verbatim>\<open>@st.cache_data\<close> keeps for \<^verbatim>\<open>load_all_data\<close>; \<open>session_data\<close> is
  \<^verbatim>\<open>st.session_state.data\<close>. \<open>txn\<close> is the database as the connection's open
  transaction sees it and \<open>cursor\<close> the result set of the last statement.
  \<open>pdf_fails\<close> marks the frames the PDF library cannot render.
\<close>

datatype conn_state = IsOpen | IsClosed

datatype conn_entry = NotCached | CachedNone | CachedConn conn_state

type_synonym snapshot = "(string \<times> row list) list"

datatype msg =
  ConnectFailed | QueryFailed exn | LoadFailed exn
  | OrderRegistered | OrderFailed | FillAllFields | MultipleOrders
  | NoStockData | StockSummaryFailed exn | NoProductsInCategory

datatype ui =
  StError msg | StWarning msg | StSuccess msg | StInfo msg
  | StSelectbox "val list" | StSubheader val | StWrite val | StPrice val
  | StTable "row list" | StTotal int | StDownloadPdf "row list"
  | StDataframe "row list" | StDownloadCsv "row list"

text \<open>
  The trace of effects. \<open>Call\<close> is a ghost event: it records that \<^verbatim>\<open>run_query\<close> was
  entered, with its three arguments. \<open>Connect\<close> is a connection opened by
  \<^verbatim>\<open>psycopg2.connect\<close>; \<open>Execute\<close> a statement and its parameter tuple handed to
  \<^verbatim>\<open>cursor.execute\<close>; \<open>Commit\<close> and \<open>Rollback\<close> a transaction ended; \<open>Close\<close> a call of
  \<^verbatim>\<open>conn.close()\<close>; \<open>CacheClear\<close> a call of \<^verbatim>\<open>load_all_data.clear()\<close>; \<open>Ui\<close> a
  Streamlit element shown.
\<close>

datatype event =
  Call string "val list option" bool
  | Connect | Execute string "val list" | Commit | Rollback | Close
  | CacheClear
  | Ui ui

record world =
  db :: database
  conn_cache :: conn_entry
  txn :: "database option"
  cursor :: "row list option"
  data_cache :: "snapshot option"
  session_data :: snapshot
  username :: "string option"
  pdf_fails :: "row list \<Rightarrow> bool"
  log :: "event list"

definition emit :: "event \<Rightarrow> world \<Rightarrow> world" where
  "emit e w = w\<lparr>log := log w @ [e]\<rparr>"

text \<open>The events a step added to the trace.\<close>

definition added :: "world \<Rightarrow> world \<Rightarrow> event list" where
  "added w w' = drop (length (log w)) (log w')"

section \<open>The connection and the query executor\<close>

text \<open>
  \<^verbatim>\<open>get_db_connection\<close> under \<^verbatim>\<open>@st.cache_resource\<close>: the body runs only when the
  cache has no entry, and what it returns (the connection, or \<^verbatim>\<open>None\<close> after an
  OperationalError) becomes the entry; every later call returns the cached object
  itself. The result is whether the caller holds a connection (\<open>False\<close> for \<^verbatim>\<open>None\<close>).
  The secrets are taken to be present. Streamlit shows the elements of a cached
  function again when it answers from the cache; the trace has them once, where the
  body ran.
\<close>

definition get_db_connection :: "world \<Rightarrow> bool \<times> world" where
  "get_db_connection w =
     (case conn_cache w of
        CachedConn s \<Rightarrow> (True, w)
      | CachedNone \<Rightarrow> (False, w)
      | NotCached \<Rightarrow>
          (if reachable (db w)
           then (True, emit Connect (w\<lparr>conn_cache := CachedConn IsOpen\<rparr>))
           else (False, emit (Ui (StError ConnectFailed)) (w\<lparr>conn_cache := CachedNone\<rparr>))))"

text \<open>
  The psycopg2 operations on the connection the caller holds. On a closed connection
  \<^verbatim>\<open>cursor()\<close>, \<^verbatim>\<open>commit()\<close> and \<^verbatim>\<open>rollback()\<close> raise InterfaceError; \<^verbatim>\<open>close()\<close> may
  be called again. Closing discards an open transaction. A connection lost while a
  statement runs is closed from then on. \<open>visible_db\<close> is the database as the
  connection sees it: with the effects of its open transaction.
\<close>

definition visible_db :: "world \<Rightarrow> database" where
  "visible_db w = (case txn w of None \<Rightarrow> db w | Some d \<Rightarrow> d)"

definition conn_cursor :: "world \<Rightarrow> exn + unit" where
  "conn_cursor w = (if conn_cache w = CachedConn IsOpen then Inr () else Inl InterfaceError)"

definition cursor_execute :: "string \<Rightarrow> val list \<Rightarrow> world \<Rightarrow> (exn + unit) \<times> world" where
  "cursor_execute q vs w =
     (let w1 = emit (Execute q vs) w in
      case db_execute (visible_db w1) q vs of
        Inl e \<Rightarrow>
          (Inl e, if e = OperationalError then w1\<lparr>conn_cache := CachedConn IsClosed\<rparr> else w1)
      | Inr (rs, d') \<Rightarrow> (Inr (), w1\<lparr>txn := Some d', cursor := rs\<rparr>))"

definition cursor_fetchall :: "world \<Rightarrow> exn + row list" where
  "cursor_fetchall w = (case cursor w of None \<Rightarrow> Inl ProgrammingError | Some rs \<Rightarrow> Inr rs)"

definition conn_commit :: "world \<Rightarrow> (exn + unit) \<times> world" where
  "conn_commit w =
     (if conn_cache w = CachedConn IsOpen
      then (Inr (), emit Commit (w\<lparr>db := visible_db w, txn := None\<rparr>))
      else (Inl InterfaceError, w))"

definition conn_rollback :: "world \<Rightarrow> (exn + unit) \<times> world" where
  "conn_rollback w =
     (if conn_cache w = CachedConn IsOpen
      then (Inr (), emit Rollback (w\<lparr>txn := None\<rparr>))
      else (Inl InterfaceError, w))"

definition conn_close :: "world \<Rightarrow> world" where
  "conn_close w = emit Close (w\<lparr>conn_cache := CachedConn IsClosed, txn := None, cursor := None\<rparr>)"

text \<open>\<^verbatim>\<open>values or ()\<close>.\<close>

fun values_or_unit :: "val list option \<Rightarrow> val list" where
  "values_or_unit None = []"
| "values_or_unit (Some vs) = vs"

text \<open>The \<^verbatim>\<open>try\<close> block of \<^verbatim>\<open>run_query\<close>.\<close>

definition run_query_try ::
  "string \<Rightarrow> val list option \<Rightarrow> bool \<Rightarrow> world \<Rightarrow> (exn + qresult) \<times> world" where
  "run_query_try query vals commit w =
     (case conn_cursor w of
        Inl e \<Rightarrow> (Inl e, w)
      | Inr _ \<Rightarrow>
          (case cursor_execute query (values_or_unit vals) w of
             (Inl e, w1) \<Rightarrow> (Inl e, w1)
           | (Inr _, w1) \<Rightarrow>
               (if commit
                then (case conn_commit w1 of
                        (Inl e, w2) \<Rightarrow> (Inl e, w2)
                      | (Inr _, w2) \<Rightarrow> (Inr RTrue, w2))
                else (case cursor_fetchall w1 of
                        Inl e \<Rightarrow> (Inl e, w1)
                      | Inr rs \<Rightarrow> (Inr (Rows rs), w1)))))"

text \<open>
  The \<^verbatim>\<open>except Exception as e\<close> block: \<^verbatim>\<open>conn.rollback()\<close> comes first, and an
  exception it raises leaves the handler.
\<close>

definition run_query_except :: "exn \<Rightarrow> world \<Rightarrow> (exn + qresult) \<times> world" where
  "run_query_except e w =
     (case conn_rollback w of
        (Inl e', w1) \<Rightarrow> (Inl e', w1)
      | (Inr _, w1) \<Rightarrow> (Inr RNone, emit (Ui (StError (QueryFailed e))) w1))"

text \<open>\<^verbatim>\<open>run_query\<close>: the connection, the \<^verbatim>\<open>try\<close>, the handler, and \<^verbatim>\<open>finally: conn.close()\<close>.\<close>

definition run_query ::
  "string \<Rightarrow> val list option \<Rightarrow> bool \<Rightarrow> world \<Rightarrow> (exn + qresult) \<times> world" where
  "run_query query vals commit w =
     (case get_db_connection (emit (Call query vals commit) w) of
        (False, w1) \<Rightarrow> (Inr RNone, w1)
      | (True, w1) \<Rightarrow>
          (case run_query_try query vals commit w1 of
             (Inl e, w2) \<Rightarrow>
               (case run_query_except e w2 of (r, w3) \<Rightarrow> (r, conn_close w3))
           | (Inr v, w2) \<Rightarrow> (Inr v, conn_close w2)))"

section \<open>Loading and refreshing the cached data\<close>

text \<open>
  The body of \<^verbatim>\<open>load_all_data\<close>: four assignments inside one \<^verbatim>\<open>try\<close>. An exception
  leaves the block at the assignment that raised it; the handler reports it and the
  dictionary built so far is returned.
\<close>

definition load_all_data_body :: "world \<Rightarrow> snapshot \<times> world" where
  "load_all_data_body w =
     (case run_query orders_query None False w of
        (Inl e, w1) \<Rightarrow> ([], emit (Ui (StError (LoadFailed e))) w1)
      | (Inr r1, w1) \<Rightarrow>
     (let d1 = AList.update ''orders'' (or_empty r1) [] in
      case run_query products_query None False w1 of
        (Inl e, w2) \<Rightarrow> (d1, emit (Ui (StError (LoadFailed e))) w2)
      | (Inr r2, w2) \<Rightarrow>
     (let d2 = AList.update ''products'' (or_empty r2) d1 in
      case run_query clients_query None False w2 of
        (Inl e, w3) \<Rightarrow> (d2, emit (Ui (StError (LoadFailed e))) w3)
      | (Inr r3, w3) \<Rightarrow>
     (let d3 = AList.update ''clients'' (or_empty r3) d2 in
      case run_query stock_query None False w3 of
        (Inl e, w4) \<Rightarrow> (d3, emit (Ui (StError (LoadFailed e))) w4)
      | (Inr r4, w4) \<Rightarrow> (AList.update ''stock'' (or_empty r4) d3, w4)))))"

text \<open>\<^verbatim>\<open>@st.cache_data\<close>: the body runs when there is no entry, and its result becomes the entry.\<close>

definition load_all_data :: "world \<Rightarrow> snapshot \<times> world" where
  "load_all_data w =
     (case data_cache w of
        Some s \<Rightarrow> (s, w)
      | None \<Rightarrow> (case load_all_data_body w of (s, w1) \<Rightarrow> (s, w1\<lparr>data_cache := Some s\<rparr>)))"

definition refresh_data :: "world \<Rightarrow> world" where
  "refresh_data w =
     (case load_all_data (emit CacheClear (w\<lparr>data_cache := None\<rparr>)) of
        (s, w1) \<Rightarrow> w1\<lparr>session_data := s\<rparr>)"

text \<open>\<^verbatim>\<open>data.get(k, [])\<close>.\<close>

definition dataset :: "snapshot \<Rightarrow> string \<Rightarrow> row list" where
  "dataset s k = (case map_of s k of None \<Rightarrow> [] | Some rs \<Rightarrow> rs)"

section \<open>The pages\<close>

subsection \<open>The menu page\<close>

text \<open>
  \<^verbatim>\<open>format_currency(value)\<close> formats with \<^verbatim>\<open>{value:,.2f}\<close>: a number is formatted
  (numbers are integers here), a string raises ValueError, \<^verbatim>\<open>None\<close> raises TypeError,
  and a timestamp takes the format as its own and gives a text. What is shown is the
  price cell; its text is not modelled.
\<close>

fun format_currency :: "val \<Rightarrow> exn + val" where
  "format_currency (VInt p) = Inr (VInt p)"
| "format_currency (VTime t) = Inr (VTime t)"
| "format_currency (VStr s) = Inl ValueError"
| "format_currency VNull = Inl TypeError"

text \<open>
  The loop that shows the products of a category: for each product the name as a
  subheader, the description, and the price. A cell that is missing raises
  IndexError where it is read, after the elements before it were shown.
\<close>

fun show_products :: "row list \<Rightarrow> world \<Rightarrow> (exn + unit) \<times> world" where
  "show_products [] w = (Inr (), w)"
| "show_products (product # rs) w =
     (if length product < 1 then (Inl IndexError, w)
      else
        (let w1 = emit (Ui (StSubheader (product ! 0))) w in
         if length product < 2 then (Inl IndexError, w1)
         else
           (let w2 = emit (Ui (StWrite (product ! 1))) w1 in
            if length product < 3 then (Inl IndexError, w2)
            else
              (case format_currency (product ! 2) of
                 Inl e \<Rightarrow> (Inl e, w2)
               | Inr price \<Rightarrow> show_products rs (emit (Ui (StPrice price)) w2)))))"

text \<open>
  \<^verbatim>\<open>menu_page\<close>; \<open>selected_category\<close> is what the category select box returns.
\<close>

definition menu_page :: "string \<Rightarrow> world \<Rightarrow> (exn + unit) \<times> world" where
  "menu_page selected_category w =
     (case run_query categories_query None False w of
        (Inl e, w1) \<Rightarrow> (Inl e, w1)
      | (Inr categories, w1) \<Rightarrow>
          (case (if truthy categories then column 0 (or_empty categories) else Inr []) of
             Inl e \<Rightarrow> (Inl e, w1)
           | Inr category_list \<Rightarrow>
               (let w2 = emit (Ui (StSelectbox (VStr [] # category_list))) w1 in
                if selected_category \<noteq> []
                then (case run_query menu_products_query (Some [VStr selected_category]) False w2 of
                        (Inl e, w3) \<Rightarrow> (Inl e, w3)
                      | (Inr products, w3) \<Rightarrow>
                          (if truthy products then show_products (or_empty products) w3
                           else (Inr (), emit (Ui (StWarning NoProductsInCategory)) w3)))
                else (Inr (), w2))))"

subsection \<open>The home page: the stock-versus-orders summary\<close>

text \<open>The \<^verbatim>\<open>Total_in_Stock\<close> cell of a row of four cells, when it is a number.\<close>

fun total_in_stock :: "row \<Rightarrow> int option" where
  "total_in_stock [p, s, ordered, VInt t] = Some t"
| "total_in_stock _ = None"

fun totals :: "row list \<Rightarrow> int list option" where
  "totals [] = Some []"
| "totals (r # rs) =
     (case total_in_stock r of
        None \<Rightarrow> None
      | Some t \<Rightarrow> (case totals rs of None \<Rightarrow> None | Some ts \<Rightarrow> Some (t # ts)))"

text \<open>
  The sum of an integer column as pandas computes it: in 64-bit arithmetic, signed
  when every value fits, unsigned when none is negative and every value fits that,
  and exactly otherwise.
\<close>

definition column_sum :: "int list \<Rightarrow> int" where
  "column_sum ts =
     (if list_all (\<lambda>t. - (2 ^ 63) \<le> t \<and> t < 2 ^ 63) ts
      then (sum_list ts + 2 ^ 63) mod 2 ^ 64 - 2 ^ 63
      else if list_all (\<lambda>t. 0 \<le> t \<and> t < 2 ^ 64) ts
      then sum_list ts mod 2 ^ 64
      else sum_list ts)"

text \<open>
  The \<^verbatim>\<open>try\<close> block under "Stock vs. Orders Summary" of \<^verbatim>\<open>home_page\<close>. With rows,
  the frame is sorted by total, descending (rows with equal totals keep their order
  here; the sort of the source does not promise any); the table shows product and
  total, the total line the sum of the column, and the frame goes to the PDF export,
  whose failure the handler of the block reports. The rows of the view have four
  cells and a number as total (lemma \<open>view_rows_totals\<close>); any other frame is reported
  by the handler, as is an exception of \<^verbatim>\<open>run_query\<close>. Without rows there is only the
  notice.
\<close>

definition stock_vs_orders_summary :: "world \<Rightarrow> world" where
  "stock_vs_orders_summary w =
     (case run_query stock_vs_orders_query None False w of
        (Inl e, w1) \<Rightarrow> emit (Ui (StError (StockSummaryFailed e))) w1
      | (Inr stock_vs_orders_data, w1) \<Rightarrow>
          (if truthy stock_vs_orders_data
           then (case totals (or_empty stock_vs_orders_data) of
                   None \<Rightarrow> emit (Ui (StError (StockSummaryFailed ValueError))) w1
                 | Some ts \<Rightarrow>
                     (let df = sort_key (\<lambda>r. - (case total_in_stock r of Some t \<Rightarrow> t | None \<Rightarrow> 0))
                                 (or_empty stock_vs_orders_data);
                          w2 = emit (Ui (StTable (map (\<lambda>r. [r ! 0, r ! 3]) df))) w1;
                          w3 = emit (Ui (StTotal (column_sum ts))) w2
                      in if pdf_fails w3 df
                         then emit (Ui (StError (StockSummaryFailed ExportError))) w3
                         else emit (Ui (StDownloadPdf df)) w3))
           else emit (Ui (StInfo NoStockData)) w1))"

subsection \<open>The orders page\<close>

text \<open>
  The customer select box of the order form: the names come from
  \<^verbatim>\<open>tb_clientes\<close>, read on every rendering of the form.
\<close>

definition order_form_customers :: "world \<Rightarrow> (exn + val list) \<times> world" where
  "order_form_customers w =
     (case run_query customers_query None False w of
        (Inl e, w1) \<Rightarrow> (Inl e, w1)
      | (Inr clientes, w1) \<Rightarrow>
          (if truthy clientes
           then (case column 0 (or_empty clientes) of
                   Inl e \<Rightarrow> (Inl e, w1)
                 | Inr names \<Rightarrow>
                     (Inr (VStr [] # names), emit (Ui (StSelectbox (VStr [] # names))) w1))
           else (Inr [], emit (Ui (StSelectbox [])) w1)))"

text \<open>
  The block under \<^verbatim>\<open>if submit_button:\<close>. \<open>customer_name\<close>, \<open>product\<close> and \<open>quantity\<close>
  are the form's fields (a select box without options returns \<^verbatim>\<open>None\<close>, which is
  the empty name here: both are false); \<open>now\<close> is what \<^verbatim>\<open>datetime.now()\<close> reads.
\<close>

definition register_order ::
  "string \<Rightarrow> string \<Rightarrow> int \<Rightarrow> datetime \<Rightarrow> world \<Rightarrow> (exn + unit) \<times> world" where
  "register_order customer_name product quantity now w =
     (if customer_name \<noteq> [] \<and> product \<noteq> [] \<and> quantity > 0
      then (case run_query insert_query
                   (Some [VStr customer_name, VStr product, VInt quantity, VTime now]) True w of
              (Inl e, w1) \<Rightarrow> (Inl e, w1)
            | (Inr success, w1) \<Rightarrow>
                (if truthy success
                 then (Inr (), refresh_data (emit (Ui (StSuccess OrderRegistered)) w1))
                 else (Inr (), emit (Ui (StError OrderFailed)) w1)))
      else (Inr (), emit (Ui (StWarning FillAllFields)) w))"

text \<open>
  Printing for the row key. \<^verbatim>\<open>strftime('%Y-%m-%d %H:%M:%S')\<close> pads month, day, hour,
  minute and second to two digits and prints the year as it is (the C library does
  not pad a year below 1000). \<^verbatim>\<open>str\<close> of a cell, as an f-string inserts it: a
  timestamp in ISO form with a four-digit year, a missing cell as \<^verbatim>\<open>nan\<close>.
\<close>

definition digit :: "nat \<Rightarrow> char" where
  "digit n = ''0123456789'' ! (n mod 10)"

definition pad2 :: "nat \<Rightarrow> string" where
  "pad2 n = [digit (n div 10), digit n]"

definition pad4 :: "nat \<Rightarrow> string" where
  "pad4 n = [digit (n div 1000), digit (n div 100), digit (n div 10), digit n]"

definition pad6 :: "nat \<Rightarrow> string" where
  "pad6 n = [digit (n div 100000), digit (n div 10000)] @ pad4 n"

function show_nat :: "nat \<Rightarrow> string" where
  "show_nat n = (if n < 10 then [digit n] else show_nat (n div 10) @ [digit n])"
  by pat_completeness auto
termination
  by (relation "measure id") auto

definition month_to_second :: "datetime \<Rightarrow> string" where
  "month_to_second d =
     ''-'' @ pad2 (dt_month d) @ ''-'' @ pad2 (dt_day d) @ '' '' @
     pad2 (dt_hour d) @ '':'' @ pad2 (dt_minute d) @ '':'' @ pad2 (dt_second d)"

definition strftime :: "datetime \<Rightarrow> string" where
  "strftime d = show_nat (dt_year d) @ month_to_second d"

fun py_str :: "val \<Rightarrow> string" where
  "py_str (VStr s) = s"
| "py_str (VInt i) = (if i < 0 then ''-'' @ show_nat (nat (- i)) else show_nat (nat i))"
| "py_str (VTime d) =
     pad4 (dt_year d) @ month_to_second d @
     (if dt_microsecond d = 0 then [] else ''.'' @ pad6 (dt_microsecond d))"
| "py_str VNull = ''nan''"

text \<open>
  The key of one row of the orders frame: client, product and the date to the second,
  joined by bars. A missing date is not-a-time, whose \<^verbatim>\<open>strftime\<close> raises ValueError;
  any other cell that is not a timestamp has no \<^verbatim>\<open>strftime\<close>.
\<close>

fun unique_key :: "row \<Rightarrow> exn + string" where
  "unique_key [client, product, quantity, VTime date, status] =
     Inr (py_str client @ ''|'' @ py_str product @ ''|'' @ strftime date)"
| "unique_key [client, product, quantity, VNull, status] = Inl ValueError"
| "unique_key _ = Inl AttributeError"

fun unique_keys :: "row list \<Rightarrow> exn + string list" where
  "unique_keys [] = Inr []"
| "unique_keys (r # rs) =
     (case unique_key r of
        Inl e \<Rightarrow> Inl e
      | Inr k \<Rightarrow> (case unique_keys rs of Inl e \<Rightarrow> Inl e | Inr ks \<Rightarrow> Inr (k # ks)))"

text \<open>\<^verbatim>\<open>Series.unique()\<close>: each key once, in order of first appearance.\<close>

definition unique :: "string list \<Rightarrow> string list" where
  "unique ks = rev (remdups (rev ks))"

text \<open>
  Where the block "All Orders" of \<^verbatim>\<open>orders_page\<close> ends: nothing to show, the table
  only, no key selected, the refusal of an ambiguous key, or the edit form for the
  selected row (the form, with its update and delete buttons, is the \<^verbatim>\<open>else\<close> branch).
\<close>

datatype selection = NoOrders | TableOnly | NoSelection | Refused | EditForm row

text \<open>
  \<^verbatim>\<open>pd.DataFrame(rows, columns=...)\<close> for \<open>n\<close> column names: the widest row must have
  \<open>n\<close> cells, or the constructor raises ValueError; narrower rows are filled with
  \<^verbatim>\<open>None\<close>.
\<close>

definition data_frame :: "nat \<Rightarrow> row list \<Rightarrow> exn + row list" where
  "data_frame n rows =
     (if list_all (\<lambda>r. length r \<le> n) rows \<and> list_ex (\<lambda>r. length r = n) rows
      then Inr (map (\<lambda>r. r @ replicate (n - length r) VNull) rows)
      else Inl ValueError)"

text \<open>
  The block from \<^verbatim>\<open>orders_data = st.session_state.data.get("orders", [])\<close> to the
  choice between the warning and the edit form; \<open>selected_key\<close> is what the key
  select box returns.
\<close>

definition select_order :: "string \<Rightarrow> world \<Rightarrow> (exn + selection) \<times> world" where
  "select_order selected_key w =
     (let orders_data = dataset (session_data w) ''orders'' in
      if orders_data = [] then (Inr NoOrders, w)
      else
        (case data_frame 5 orders_data of
           Inl e \<Rightarrow> (Inl e, w)
         | Inr df_orders \<Rightarrow>
        (let w1 = emit (Ui (StDownloadCsv df_orders)) (emit (Ui (StDataframe df_orders)) w) in
         if username w1 \<noteq> Some ''admin'' then (Inr TableOnly, w1)
         else
           (case unique_keys df_orders of
              Inl e \<Rightarrow> (Inl e, w1)
            | Inr keys \<Rightarrow>
                (let w2 = emit (Ui (StSelectbox (map VStr ([] # unique keys)))) w1 in
                 if selected_key = [] then (Inr NoSelection, w2)
                 else
                   (let matching_rows =
                          map fst (filter (\<lambda>(r, k). k = selected_key) (zip df_orders keys))
                    in if length matching_rows > 1
                       then (Inr Refused, emit (Ui (StWarning MultipleOrders)) w2)
                       else (case matching_rows of
                               [] \<Rightarrow> (Inl IndexError, w2)
                             | selected_row # _ \<Rightarrow> (Inr (EditForm selected_row), w2))))))))"

section \<open>Notions used in the statements\<close>

text \<open>
  A call of \<^verbatim>\<open>run_query\<close> holds a connection when the cache has one, or has no entry
  and the database can be reached; the connection is usable when it is not closed.
\<close>

definition holds_connection :: "world \<Rightarrow> bool" where
  "holds_connection w =
     (case conn_cache w of
        NotCached \<Rightarrow> reachable (db w)
      | CachedNone \<Rightarrow> False
      | CachedConn s \<Rightarrow> True)"

definition usable :: "world \<Rightarrow> bool" where
  "usable w =
     (case conn_cache w of
        NotCached \<Rightarrow> reachable (db w)
      | CachedNone \<Rightarrow> False
      | CachedConn s \<Rightarrow> s = IsOpen)"

text \<open>The state in which \<^verbatim>\<open>cursor.execute\<close> has been called on a usable connection.\<close>

definition connected :: "world \<Rightarrow> world" where
  "connected w =
     (if conn_cache w = NotCached then emit Connect (w\<lparr>conn_cache := CachedConn IsOpen\<rparr>) else w)"

definition executing :: "string \<Rightarrow> val list option \<Rightarrow> bool \<Rightarrow> world \<Rightarrow> world" where
  "executing q vs c w = emit (Execute q (values_or_unit vs)) (connected (emit (Call q vs c) w))"

text \<open>The calls of \<^verbatim>\<open>run_query\<close>, the statements executed and the elements shown in a trace.\<close>

fun call_of :: "event \<Rightarrow> (string \<times> val list option \<times> bool) list" where
  "call_of (Call q vs c) = [(q, vs, c)]"
| "call_of _ = []"

definition calls :: "event list \<Rightarrow> (string \<times> val list option \<times> bool) list" where
  "calls es = concat (map call_of es)"

fun execute_of :: "event \<Rightarrow> (string \<times> val list) list" where
  "execute_of (Execute q vs) = [(q, vs)]"
| "execute_of _ = []"

definition executes :: "event list \<Rightarrow> (string \<times> val list) list" where
  "executes es = concat (map execute_of es)"

fun ui_of :: "event \<Rightarrow> ui list" where
  "ui_of (Ui u) = [u]"
| "ui_of _ = []"

definition shown :: "event list \<Rightarrow> ui list" where
  "shown es = concat (map ui_of es)"

text \<open>The statement texts of the calls in a trace.\<close>

definition texts :: "event list \<Rightarrow> string list" where
  "texts es = map fst (calls es)"

text \<open>The four reads of \<^verbatim>\<open>load_all_data\<close>, in the order of the source.\<close>

definition load_calls :: "(string \<times> val list option \<times> bool) list" where
  "load_calls =
     [(orders_query, None, False), (products_query, None, False),
      (clients_query, None, False), (stock_query, None, False)]"

text \<open>The snapshot of a load in which every read returned \<^verbatim>\<open>None\<close>.\<close>

definition no_data :: snapshot where
  "no_data = [(''orders'', []), (''products'', []), (''clients'', []), (''stock'', [])]"

text \<open>
  A row of the orders frame that has a key: five cells, the fourth a timestamp. Two
  rows have the same target when client, product and timestamp agree.
\<close>

fun keyed :: "row \<Rightarrow> bool" where
  "keyed [client, product, quantity, VTime date, status] = True"
| "keyed _ = False"

definition same_target :: "row \<Rightarrow> row \<Rightarrow> bool" where
  "same_target r r' = (r ! 0 = r' ! 0 \<and> r ! 1 = r' ! 1 \<and> r ! 3 = r' ! 3)"

section \<open>Concrete states\<close>

definition now0 :: datetime where
  "now0 = \<lparr>dt_year = 2024, dt_month = 5, dt_day = 1, dt_hour = 12, dt_minute = 30,
           dt_second = 0, dt_microsecond = 250\<rparr>"

text \<open>A reachable database: one open order of Ana, one product, two registered clients.\<close>

definition db0 :: database where
  "db0 =
     \<lparr>reachable = True,
      breaks = (\<lambda>q vs. False),
      rejects = (\<lambda>q vs. False),
      coerce = (\<lambda>vs. None),
      tb_pedido =
        [\<lparr>p_Cliente = ''Ana'', p_Produto = ''Water'', p_Quantidade = 2, p_Data = now0,
          p_status = ''em aberto''\<rparr>],
      tb_products =
        [\<lparr>pr_supplier = VStr ''Acme'', pr_product = ''Water'', pr_quantity = VInt 10,
          pr_unit_value = VInt 3, pr_total_value = VInt 30, pr_creation_date = now0,
          pr_categoria = ''Drinks'', pr_description = VStr ''Still water'', pr_price = VInt 5\<rparr>],
      tb_clientes = [''Bia'', ''Ana''],
      tb_estoque = [],
      vw_stock_vs_orders_summary = []\<rparr>"

text \<open>A process that has not yet asked for its connection, and has loaded nothing.\<close>

definition fresh :: world where
  "fresh =
     \<lparr>db = db0, conn_cache = NotCached, txn = None, cursor = None, data_cache = None,
      session_data = [], username = Some ''admin'', pdf_fails = (\<lambda>df. False), log = []\<rparr>"

text \<open>The same process after one call of \<^verbatim>\<open>run_query\<close>.\<close>

definition used :: world where
  "used = snd (run_query orders_query None False fresh)"

text \<open>A fresh process whose database refuses the INSERT.\<close>

definition refusing :: world where
  "refusing = fresh\<lparr>db := db0\<lparr>rejects := (\<lambda>q vs. q = insert_query)\<rparr>\<rparr>"

text \<open>A fresh process whose connection is lost while the INSERT runs.\<close>

definition breaking :: world where
  "breaking = fresh\<lparr>db := db0\<lparr>breaks := (\<lambda>q vs. q = insert_query)\<rparr>\<rparr>"

text \<open>A fresh process whose database refuses the orders query.\<close>

definition orders_refused :: world where
  "orders_refused = fresh\<lparr>db := db0\<lparr>rejects := (\<lambda>q vs. q = orders_query)\<rparr>\<rparr>"

text \<open>A session whose cached orders hold the same order twice.\<close>

definition row0 :: row where
  "row0 = [VStr ''Ana'', VStr ''Water'', VInt 2, VTime now0, VStr ''em aberto'']"

definition twice :: world where
  "twice = fresh\<lparr>session_data := [(''orders'', [row0, row0])]\<rparr>"

section \<open>Facts about the query executor\<close>

lemmas run_defs =
  run_query_def get_db_connection_def run_query_try_def run_query_except_def
  conn_cursor_def cursor_execute_def cursor_fetchall_def conn_commit_def conn_rollback_def
  Let_def

lemmas query_defs =
  orders_query_def products_query_def clients_query_def stock_query_def
  customers_query_def categories_query_def menu_products_query_def insert_query_def
  stock_vs_orders_query_def

lemma emit_simps [simp]:
  "db (emit e w) = db w" "conn_cache (emit e w) = conn_cache w" "txn (emit e w) = txn w"
  "cursor (emit e w) = cursor w" "data_cache (emit e w) = data_cache w"
  "session_data (emit e w) = session_data w" "username (emit e w) = username w"
  "log (emit e w) = log w @ [e]"
  by (simp_all add: emit_def)

lemma visible_db_simps [simp]:
  "visible_db (emit e w) = visible_db w"
  "visible_db (w\<lparr>conn_cache := cc\<rparr>) = visible_db w"
  "visible_db (w\<lparr>log := l\<rparr>) = visible_db w"
  "visible_db (w\<lparr>cursor := cu\<rparr>) = visible_db w"
  "visible_db (w\<lparr>data_cache := dc\<rparr>) = visible_db w"
  "visible_db (w\<lparr>session_data := sd\<rparr>) = visible_db w"
  "visible_db (w\<lparr>txn := Some d\<rparr>) = d"
  "visible_db (w\<lparr>txn := None\<rparr>) = db w"
  by (simp_all add: visible_db_def emit_def split: option.split)

lemma conn_close_simps [simp]:
  "db (conn_close w) = db w" "conn_cache (conn_close w) = CachedConn IsClosed"
  "txn (conn_close w) = None" "cursor (conn_close w) = None"
  "data_cache (conn_close w) = data_cache w" "session_data (conn_close w) = session_data w"
  "username (conn_close w) = username w" "log (conn_close w) = log w @ [Close]"
  by (simp_all add: conn_close_def)

lemma connected_simps [simp]:
  "db (connected w) = db w" "txn (connected w) = txn w" "cursor (connected w) = cursor w"
  "data_cache (connected w) = data_cache w" "session_data (connected w) = session_data w"
  "username (connected w) = username w" "visible_db (connected w) = visible_db w"
  "log (connected w) = log w @ (if conn_cache w = NotCached then [Connect] else [])"
  by (simp_all add: connected_def)

lemma connected_usable [simp]: "usable w \<Longrightarrow> conn_cache (connected w) = CachedConn IsOpen"
  by (simp add: connected_def usable_def split: conn_entry.splits)

lemma executing_simps [simp]:
  "db (executing q vs c w) = db w" "txn (executing q vs c w) = txn w"
  "cursor (executing q vs c w) = cursor w" "data_cache (executing q vs c w) = data_cache w"
  "session_data (executing q vs c w) = session_data w"
  "username (executing q vs c w) = username w"
  "visible_db (executing q vs c w) = visible_db w"
  "log (executing q vs c w) =
     log w @ Call q vs c # (if conn_cache w = NotCached then [Connect] else []) @
     [Execute q (values_or_unit vs)]"
  by (simp_all add: executing_def)

lemma added_append [simp]: "log w' = log w @ es \<Longrightarrow> added w w' = es"
  by (simp add: added_def)

text \<open>The outcomes of \<^verbatim>\<open>run_query\<close>, one lemma for each path through it.\<close>

lemma run_query_none:
  "conn_cache w = CachedNone \<Longrightarrow> run_query q vs c w = (Inr RNone, emit (Call q vs c) w)"
  by (simp add: run_defs)

lemma run_query_closed:
  "conn_cache w = CachedConn IsClosed \<Longrightarrow>
   run_query q vs c w = (Inl InterfaceError, conn_close (emit (Call q vs c) w))"
  by (simp add: run_defs)

lemma run_query_unreachable:
  "conn_cache w = NotCached \<Longrightarrow> \<not> reachable (db w) \<Longrightarrow>
   run_query q vs c w =
     (Inr RNone,
      emit (Ui (StError ConnectFailed)) ((emit (Call q vs c) w)\<lparr>conn_cache := CachedNone\<rparr>))"
  by (simp add: run_defs)

lemma run_query_broken:
  "usable w \<Longrightarrow> db_execute (visible_db w) q (values_or_unit vs) = Inl OperationalError \<Longrightarrow>
   run_query q vs c w =
     (Inl InterfaceError,
      conn_close ((executing q vs c w)\<lparr>conn_cache := CachedConn IsClosed\<rparr>))"
  by (auto simp add: run_defs usable_def connected_def executing_def
      split: conn_entry.splits)

lemma run_query_failed:
  "usable w \<Longrightarrow> db_execute (visible_db w) q (values_or_unit vs) = Inl e \<Longrightarrow>
   e \<noteq> OperationalError \<Longrightarrow>
   run_query q vs c w =
     (Inr RNone,
      conn_close (emit (Ui (StError (QueryFailed e)))
        (emit Rollback ((executing q vs c w)\<lparr>txn := None\<rparr>))))"
  by (auto simp add: run_defs usable_def connected_def executing_def
      split: conn_entry.splits)

lemma run_query_committed:
  "usable w \<Longrightarrow> db_execute (visible_db w) q (values_or_unit vs) = Inr (rs, d') \<Longrightarrow>
   run_query q vs True w =
     (Inr RTrue,
      conn_close (emit Commit
        ((executing q vs True w)\<lparr>txn := Some d', cursor := rs, db := d', txn := None\<rparr>)))"
  by (auto simp add: run_defs usable_def connected_def executing_def
      split: conn_entry.splits)

lemma run_query_fetched:
  "usable w \<Longrightarrow> db_execute (visible_db w) q (values_or_unit vs) = Inr (Some rows, d') \<Longrightarrow>
   run_query q vs False w =
     (Inr (Rows rows),
      conn_close ((executing q vs False w)\<lparr>txn := Some d', cursor := Some rows\<rparr>))"
  by (auto simp add: run_defs usable_def connected_def executing_def
      split: conn_entry.splits)

lemma run_query_no_result:
  "usable w \<Longrightarrow> db_execute (visible_db w) q (values_or_unit vs) = Inr (None, d') \<Longrightarrow>
   run_query q vs False w =
     (Inr RNone,
      conn_close (emit (Ui (StError (QueryFailed ProgrammingError)))
        (emit Rollback
          ((executing q vs False w)\<lparr>txn := Some d', cursor := None, txn := None\<rparr>))))"
  by (auto simp add: run_defs usable_def connected_def executing_def
      split: conn_entry.splits)

lemma run_query_cases:
  obtains
    (none) "conn_cache w = CachedNone" "\<not> usable w" "\<not> holds_connection w"
      "run_query q vs c w = (Inr RNone, emit (Call q vs c) w)"
  | (closed) "conn_cache w = CachedConn IsClosed" "\<not> usable w" "holds_connection w"
      "run_query q vs c w = (Inl InterfaceError, conn_close (emit (Call q vs c) w))"
  | (unreachable) "conn_cache w = NotCached" "\<not> reachable (db w)" "\<not> usable w"
      "\<not> holds_connection w"
      "run_query q vs c w =
         (Inr RNone,
          emit (Ui (StError ConnectFailed)) ((emit (Call q vs c) w)\<lparr>conn_cache := CachedNone\<rparr>))"
  | (broken) "usable w" "holds_connection w"
      "db_execute (visible_db w) q (values_or_unit vs) = Inl OperationalError"
      "run_query q vs c w =
         (Inl InterfaceError,
          conn_close ((executing q vs c w)\<lparr>conn_cache := CachedConn IsClosed\<rparr>))"
  | (failed) e where "usable w" "holds_connection w"
      "db_execute (visible_db w) q (values_or_unit vs) = Inl e" "e \<noteq> OperationalError"
      "run_query q vs c w =
         (Inr RNone,
          conn_close (emit (Ui (StError (QueryFailed e)))
            (emit Rollback ((executing q vs c w)\<lparr>txn := None\<rparr>))))"
  | (committed) rs d' where "usable w" "holds_connection w" "c"
      "db_execute (visible_db w) q (values_or_unit vs) = Inr (rs, d')"
      "run_query q vs c w =
         (Inr RTrue,
          conn_close (emit Commit
            ((executing q vs c w)\<lparr>txn := Some d', cursor := rs, db := d', txn := None\<rparr>)))"
  | (fetched) rows d' where "usable w" "holds_connection w" "\<not> c"
      "db_execute (visible_db w) q (values_or_unit vs) = Inr (Some rows, d')"
      "run_query q vs c w =
         (Inr (Rows rows),
          conn_close ((executing q vs c w)\<lparr>txn := Some d', cursor := Some rows\<rparr>))"
  | (no_result) d' where "usable w" "holds_connection w" "\<not> c"
      "db_execute (visible_db w) q (values_or_unit vs) = Inr (None, d')"
      "run_query q vs c w =
         (Inr RNone,
          conn_close (emit (Ui (StError (QueryFailed ProgrammingError)))
            (emit Rollback
              ((executing q vs c w)\<lparr>txn := Some d', cursor := None, txn := None\<rparr>))))"
proof (cases "usable w")
  case False
  then consider "conn_cache w = CachedNone" | "conn_cache w = CachedConn IsClosed"
    | "conn_cache w = NotCached" "\<not> reachable (db w)"
    by (cases "conn_cache w") (auto simp: usable_def intro: conn_state.exhaust)
  then show ?thesis
  proof cases
    case 1
    with False show ?thesis
      using none run_query_none by (simp add: holds_connection_def)
  next
    case 2
    with False show ?thesis
      using closed run_query_closed by (simp add: holds_connection_def)
  next
    case 3
    with False show ?thesis
      using unreachable run_query_unreachable by (simp add: holds_connection_def)
  qed
next
  case True
  then have h: "holds_connection w"
    by (simp add: usable_def holds_connection_def split: conn_entry.splits)
  show ?thesis
  proof (cases "db_execute (visible_db w) q (values_or_unit vs)")
    case (Inl e)
    show ?thesis
    proof (cases "e = OperationalError")
      case True
      with \<open>usable w\<close> h Inl show ?thesis using broken run_query_broken [of w q vs c] by simp
    next
      case False
      with \<open>usable w\<close> h Inl show ?thesis
        using failed [of e] run_query_failed [of w q vs e c] by simp
    qed
  next
    case (Inr p)
    obtain rs d' where p: "p = (rs, d')" by (cases p)
    show ?thesis
    proof (cases c)
      case True
      with \<open>usable w\<close> h Inr p show ?thesis
        using committed [of rs d'] run_query_committed [of w q vs rs d'] by simp
    next
      case False
      show ?thesis
      proof (cases rs)
        case None
        with \<open>usable w\<close> h Inr p False show ?thesis
          using no_result [of d'] run_query_no_result [of w q vs d'] by simp
      next
        case (Some rows)
        with \<open>usable w\<close> h Inr p False show ?thesis
          using fetched [of rows d'] run_query_fetched [of w q vs rows d'] by simp
      qed
    qed
  qed
qed

lemma fresh_usable: "usable fresh"
  by (simp add: usable_def fresh_def db0_def)

lemma fresh_orders:
  "db_execute (visible_db fresh) orders_query [] =
     Inr (Some [[VStr ''Ana'', VStr ''Water'', VInt 2, VTime now0, VStr ''em aberto'']], db0)"
  by (simp add: db_execute_def visible_db_def fresh_def db0_def select_rows_def
      order_by_desc_def pedido_row_def)

lemma used_eq:
  "used =
     conn_close ((executing orders_query None False fresh)
       \<lparr>txn := Some db0,
        cursor := Some [[VStr ''Ana'', VStr ''Water'', VInt 2, VTime now0, VStr ''em aberto'']]\<rparr>)"
  unfolding used_def
  using run_query_fetched [OF fresh_usable, of orders_query None, simplified, OF fresh_orders]
  by simp

lemma used_closed: "conn_cache used = CachedConn IsClosed"
  by (simp add: used_eq)

lemma run_query_read_not_true: "fst (run_query q vs False w) \<noteq> Inr RTrue"
  by (cases rule: run_query_cases [of w q vs False]) simp_all

lemma later_calls_raise:
  assumes "holds_connection w"
  shows "fst (run_query q' vs' c' (snd (run_query q vs c w))) = Inl InterfaceError"
proof -
  have "conn_cache (snd (run_query q vs c w)) = CachedConn IsClosed"
    using assms by (cases rule: run_query_cases [of w q vs c]) simp_all
  then show ?thesis by (simp add: run_query_closed)
qed

lemma run_query_without_connection:
  assumes "\<not> holds_connection w"
  shows "fst (run_query q vs c w) = Inr RNone \<and> conn_cache (snd (run_query q vs c w)) = CachedNone"
  using assms by (cases rule: run_query_cases [of w q vs c]) simp_all

lemma calls_simps [simp]:
  "calls [] = []" "calls (e # es) = call_of e @ calls es" "calls (xs @ ys) = calls xs @ calls ys"
  by (simp_all add: calls_def)

lemma shown_simps [simp]:
  "shown [] = []" "shown (e # es) = ui_of e @ shown es" "shown (xs @ ys) = shown xs @ shown ys"
  by (simp_all add: shown_def)

lemma executes_simps [simp]:
  "executes [] = []" "executes (e # es) = execute_of e @ executes es"
  "executes (xs @ ys) = executes xs @ executes ys"
  by (simp_all add: executes_def)

lemma run_query_effect:
  "\<exists>es. log (snd (run_query q vs c w)) = log w @ Call q vs c # es \<and> calls es = [] \<and>
        CacheClear \<notin> set es \<and> (c \<or> Commit \<notin> set es \<and> db (snd (run_query q vs c w)) = db w) \<and>
        data_cache (snd (run_query q vs c w)) = data_cache w \<and>
        session_data (snd (run_query q vs c w)) = session_data w \<and>
        username (snd (run_query q vs c w)) = username w"
proof (cases rule: run_query_cases [of w q vs c])
  case none
  then show ?thesis by simp
next
  case closed
  then show ?thesis by simp
next
  case unreachable
  then show ?thesis by simp
next
  case broken
  then show ?thesis by simp
next
  case (failed e)
  then show ?thesis by simp
next
  case (committed rs d')
  then show ?thesis by simp
next
  case (fetched rows d')
  then show ?thesis by simp
next
  case (no_result d')
  then show ?thesis by simp
qed

lemma read_step:
  assumes "run_query q None False w = (r, w1)"
  obtains es where "log w1 = log w @ es" "calls es = [(q, None, False)]"
    "CacheClear \<notin> set es" "Commit \<notin> set es" "db w1 = db w" "data_cache w1 = data_cache w"
    "session_data w1 = session_data w" "username w1 = username w"
  using run_query_effect [of q None False w] assms by auto

lemma load_all_data_body_effect:
  "\<exists>es. log (snd (load_all_data_body w)) = log w @ es \<and> prefix (calls es) load_calls \<and>
        calls es \<noteq> [] \<and>
        CacheClear \<notin> set es \<and> Commit \<notin> set es \<and>
        db (snd (load_all_data_body w)) = db w \<and>
        data_cache (snd (load_all_data_body w)) = data_cache w \<and>
        session_data (snd (load_all_data_body w)) = session_data w \<and>
        username (snd (load_all_data_body w)) = username w"
proof -
  obtain r1 w1 where s1: "run_query orders_query None False w = (r1, w1)" by force
  obtain r2 w2 where s2: "run_query products_query None False w1 = (r2, w2)" by force
  obtain r3 w3 where s3: "run_query clients_query None False w2 = (r3, w3)" by force
  obtain r4 w4 where s4: "run_query stock_query None False w3 = (r4, w4)" by force
  from read_step [OF s1] obtain e1 where e1: "log w1 = log w @ e1" "calls e1 = [(orders_query, None, False)]"
    "CacheClear \<notin> set e1" "Commit \<notin> set e1" "db w1 = db w" "data_cache w1 = data_cache w"
    "session_data w1 = session_data w" "username w1 = username w" by blast
  from read_step [OF s2] obtain e2 where e2: "log w2 = log w1 @ e2" "calls e2 = [(products_query, None, False)]"
    "CacheClear \<notin> set e2" "Commit \<notin> set e2" "db w2 = db w1" "data_cache w2 = data_cache w1"
    "session_data w2 = session_data w1" "username w2 = username w1" by blast
  from read_step [OF s3] obtain e3 where e3: "log w3 = log w2 @ e3" "calls e3 = [(clients_query, None, False)]"
    "CacheClear \<notin> set e3" "Commit \<notin> set e3" "db w3 = db w2" "data_cache w3 = data_cache w2"
    "session_data w3 = session_data w2" "username w3 = username w2" by blast
  from read_step [OF s4] obtain e4 where e4: "log w4 = log w3 @ e4" "calls e4 = [(stock_query, None, False)]"
    "CacheClear \<notin> set e4" "Commit \<notin> set e4" "db w4 = db w3" "data_cache w4 = data_cache w3"
    "session_data w4 = session_data w3" "username w4 = username w3" by blast
  show ?thesis
    using s1 s2 s3 s4 e1 e2 e3 e4
    by (cases r1; cases r2; cases r3; cases r4)
       (simp_all add: load_all_data_body_def Let_def load_calls_def)
qed

lemma db_execute_insert:
  assumes "db_execute d insert_query [VStr c, VStr p, VInt n, VTime t] = Inr (rs, d')"
  shows "rs = None \<and>
         d' = d\<lparr>tb_pedido := tb_pedido d @
                 [\<lparr>p_Cliente = c, p_Produto = p, p_Quantidade = n, p_Data = t,
                   p_status = ''em aberto''\<rparr>]\<rparr>"
proof -
  have "insert_query \<noteq> orders_query" "insert_query \<noteq> products_query"
    "insert_query \<noteq> clients_query" "insert_query \<noteq> stock_query"
    "insert_query \<noteq> customers_query" "insert_query \<noteq> categories_query"
    "insert_query \<noteq> stock_vs_orders_query" "insert_query \<noteq> menu_products_query"
    by (simp_all add: query_defs)
  with assms show ?thesis
    by (auto simp: db_execute_def inserted_pedido_def split: if_splits)
qed

lemma load_calls_first:
  "prefix xs load_calls \<Longrightarrow> xs \<noteq> [] \<Longrightarrow> \<exists>rest. xs = (orders_query, None, False) # rest"
  by (cases xs) (auto simp: load_calls_def)

lemma refresh_data_effect:
  "\<exists>es. log (refresh_data w) = log w @ CacheClear # es \<and> prefix (calls es) load_calls \<and>
        calls es \<noteq> [] \<and>
        es = added (emit CacheClear (w\<lparr>data_cache := None\<rparr>))
               (snd (load_all_data_body (emit CacheClear (w\<lparr>data_cache := None\<rparr>)))) \<and>
        refresh_data w =
          (snd (load_all_data_body (emit CacheClear (w\<lparr>data_cache := None\<rparr>))))
            \<lparr>data_cache :=
               Some (fst (load_all_data_body (emit CacheClear (w\<lparr>data_cache := None\<rparr>)))),
             session_data :=
               fst (load_all_data_body (emit CacheClear (w\<lparr>data_cache := None\<rparr>)))\<rparr> \<and>
        load_all_data (emit CacheClear (w\<lparr>data_cache := None\<rparr>)) =
          (fst (load_all_data_body (emit CacheClear (w\<lparr>data_cache := None\<rparr>))),
           (snd (load_all_data_body (emit CacheClear (w\<lparr>data_cache := None\<rparr>))))
             \<lparr>data_cache :=
                Some (fst (load_all_data_body (emit CacheClear (w\<lparr>data_cache := None\<rparr>))))\<rparr>) \<and>
        Commit \<notin> set es \<and> db (refresh_data w) = db w \<and>
        data_cache (refresh_data w) = Some (session_data (refresh_data w)) \<and>
        username (refresh_data w) = username w"
proof -
  let ?W = "emit CacheClear (w\<lparr>data_cache := None\<rparr>)"
  obtain s w1 where b: "load_all_data_body ?W = (s, w1)" by force
  from load_all_data_body_effect [of ?W] b obtain es where
    "log w1 = log ?W @ es" "prefix (calls es) load_calls" "calls es \<noteq> []"
    "Commit \<notin> set es" "db w1 = db ?W" "username w1 = username ?W"
    by auto
  then show ?thesis
    using b by (simp add: refresh_data_def load_all_data_def)
qed

lemma prefix_load_calls_reads:
  "prefix xs load_calls \<Longrightarrow> filter (\<lambda>(q, vs, commit). commit) xs = []"
proof -
  assume "prefix xs load_calls"
  then have "set xs \<subseteq> set load_calls" by (rule set_mono_prefix)
  then show ?thesis
    by (auto simp: filter_empty_conv load_calls_def)
qed

lemma load_all_data_body_closed:
  "conn_cache w = CachedConn IsClosed \<Longrightarrow>
   load_all_data_body w =
     ([], emit (Ui (StError (LoadFailed InterfaceError)))
            (conn_close (emit (Call orders_query None False) w)))"
  by (simp add: load_all_data_body_def run_query_closed)

lemma refresh_data_closed:
  "conn_cache w = CachedConn IsClosed \<Longrightarrow>
   refresh_data w =
     (emit (Ui (StError (LoadFailed InterfaceError)))
        (conn_close (emit (Call orders_query None False)
           (emit CacheClear (w\<lparr>data_cache := None\<rparr>)))))
     \<lparr>data_cache := Some [], session_data := []\<rparr>"
  by (simp add: refresh_data_def load_all_data_def load_all_data_body_closed)

lemma run_query_trace:
  "\<exists>es. log (snd (run_query q vs c w)) = log w @ es \<and> calls es = [(q, vs, c)] \<and>
        executes es = (if usable w then [(q, values_or_unit vs)] else [])"
proof (cases rule: run_query_cases [of w q vs c])
  case none
  then show ?thesis by simp
next
  case closed
  then show ?thesis by simp
next
  case unreachable
  then show ?thesis by simp
next
  case broken
  then show ?thesis by simp
next
  case (failed e)
  then show ?thesis by simp
next
  case (committed rs d')
  then show ?thesis by simp
next
  case (fetched rows d')
  then show ?thesis by simp
next
  case (no_result d')
  then show ?thesis by simp
qed

lemma run_query_step:
  assumes "run_query q vs c w = (r, w1)"
  obtains es where "log w1 = log w @ es" "calls es = [(q, vs, c)]"
  using run_query_trace [of q vs c w] assms by auto

lemma show_products_log:
  "\<exists>es. log (snd (show_products rs w)) = log w @ es \<and> calls es = []"
proof (induction rs arbitrary: w)
  case Nil
  then show ?case by simp
next
  case (Cons r rs)
  show ?case
  proof (cases "3 \<le> length r \<and> (\<exists>price. format_currency (r ! 2) = Inr price)")
    case True
    then obtain price where p: "format_currency (r ! 2) = Inr price" by blast
    let ?w3 = "emit (Ui (StPrice price))
                 (emit (Ui (StWrite (r ! 1))) (emit (Ui (StSubheader (r ! 0))) w))"
    from Cons.IH [of ?w3] obtain es where
      "log (snd (show_products rs ?w3)) = log ?w3 @ es" "calls es = []" by blast
    then show ?thesis using True p by (simp add: Let_def)
  next
    case False
    then show ?thesis
      by (cases "format_currency (r ! 2)") (auto simp: Let_def)
  qed
qed

lemma menu_page_calls:
  "calls (added w (snd (menu_page selected_category w))) = [(categories_query, None, False)] \<or>
   calls (added w (snd (menu_page selected_category w))) =
     [(categories_query, None, False),
      (menu_products_query, Some [VStr selected_category], False)]"
proof -
  obtain r1 w1 where s1: "run_query categories_query None False w = (r1, w1)" by force
  from run_query_step [OF s1] obtain e1 where e1: "log w1 = log w @ e1"
    "calls e1 = [(categories_query, None, False)]" by blast
  show ?thesis
  proof (cases r1)
    case (Inl e)
    with s1 e1 show ?thesis by (simp add: menu_page_def)
  next
    case (Inr categories)
    show ?thesis
    proof (cases "if truthy categories then column 0 (or_empty categories) else Inr []")
      case (Inl e)
      with s1 e1 Inr show ?thesis by (simp add: menu_page_def)
    next
      case col: (Inr category_list)
      let ?w2 = "emit (Ui (StSelectbox (VStr [] # category_list))) w1"
      show ?thesis
      proof (cases "selected_category = []")
        case True
        with s1 e1 Inr col show ?thesis by (simp add: menu_page_def)
      next
        case False
        obtain r2 w3 where s2:
          "run_query menu_products_query (Some [VStr selected_category]) False ?w2 = (r2, w3)"
          by force
        from run_query_step [OF s2] obtain e2 where e2: "log w3 = log ?w2 @ e2"
          "calls e2 = [(menu_products_query, Some [VStr selected_category], False)]" by blast
        show ?thesis
        proof (cases r2)
          case (Inl e)
          with s1 e1 Inr col False s2 e2 show ?thesis by (simp add: menu_page_def)
        next
          case pr: (Inr products)
          from show_products_log [of "or_empty products" w3] obtain e3 where
            "log (snd (show_products (or_empty products) w3)) = log w3 @ e3" "calls e3 = []"
            by blast
          with s1 e1 Inr col False s2 e2 pr show ?thesis by (simp add: menu_page_def)
        qed
      qed
    qed
  qed
qed

lemma register_order_calls:
  "if customer_name \<noteq> [] \<and> product \<noteq> [] \<and> 0 < quantity
   then \<exists>rest. calls (added w (snd (register_order customer_name product quantity now w))) =
          (insert_query, Some [VStr customer_name, VStr product, VInt quantity, VTime now], True) # rest \<and>
          prefix rest load_calls
   else calls (added w (snd (register_order customer_name product quantity now w))) = []"
proof (cases "customer_name \<noteq> [] \<and> product \<noteq> [] \<and> 0 < quantity")
  case False
  then show ?thesis by (auto simp: register_order_def)
next
  case valid: True
  let ?vs = "Some [VStr customer_name, VStr product, VInt quantity, VTime now]"
  obtain r1 w1 where s1: "run_query insert_query ?vs True w = (r1, w1)" by force
  from run_query_step [OF s1] obtain e1 where e1: "log w1 = log w @ e1"
    "calls e1 = [(insert_query, ?vs, True)]" by blast
  show ?thesis
  proof (cases r1)
    case (Inl e)
    with valid s1 e1 show ?thesis by (simp add: register_order_def)
  next
    case (Inr success)
    show ?thesis
    proof (cases "truthy success")
      case False
      with valid s1 e1 Inr show ?thesis by (simp add: register_order_def)
    next
      case True
      let ?w2 = "emit (Ui (StSuccess OrderRegistered)) w1"
      from refresh_data_effect [of ?w2] obtain es where
        "log (refresh_data ?w2) = log ?w2 @ CacheClear # es" "prefix (calls es) load_calls"
        by blast
      with valid s1 e1 Inr True show ?thesis by (simp add: register_order_def)
    qed
  qed
qed

lemma common_prefix_agree:
  assumes "prefix a l" "prefix b l"
  shows "take (min (length a) (length b)) a = take (min (length a) (length b)) b"
proof -
  from assms(1) obtain a' where a: "l = a @ a'" by (auto simp: prefix_def)
  from assms(2) obtain b' where b: "l = b @ b'" by (auto simp: prefix_def)
  have "take (min (length a) (length b)) (a @ a') = take (min (length a) (length b)) (b @ b')"
    using a b by simp
  then show ?thesis by simp
qed

lemma load_all_data_body_usable:
  assumes "usable w" "db_execute (visible_db w) orders_query [] \<noteq> Inl OperationalError"
  shows "\<exists>rs w1. run_query orders_query None False w = (Inr rs, w1) \<and>
           load_all_data_body w =
             ([(''orders'', or_empty rs)],
              emit (Ui (StError (LoadFailed InterfaceError)))
                (conn_close (emit (Call products_query None False) w1)))"
proof (cases rule: run_query_cases [of w orders_query None False])
  case (failed e)
  then show ?thesis by (simp add: load_all_data_body_def run_query_closed)
next
  case (fetched rows d')
  then show ?thesis by (simp add: load_all_data_body_def run_query_closed)
next
  case (no_result d')
  then show ?thesis by (simp add: load_all_data_body_def run_query_closed)
qed (use assms in simp_all)

lemma fresh_first_read: "run_query orders_query None False fresh = (Inr (Rows [row0]), used)"
  using run_query_fetched [OF fresh_usable, of orders_query None, simplified, OF fresh_orders]
  by (simp add: used_def row0_def)

lemma load_fresh:
  "load_all_data_body fresh =
     ([(''orders'', [row0])],
      emit (Ui (StError (LoadFailed InterfaceError)))
        (conn_close (emit (Call products_query None False) used)))"
  using load_all_data_body_usable [OF fresh_usable] fresh_orders by (simp add: fresh_first_read)

lemma load_all_data_body_without_connection:
  assumes "\<not> holds_connection w"
  shows "fst (load_all_data_body w) = no_data \<and>
         conn_cache (snd (load_all_data_body w)) = CachedNone"
proof -
  obtain r1 w1 where s1: "run_query orders_query None False w = (r1, w1)" by force
  obtain r2 w2 where s2: "run_query products_query None False w1 = (r2, w2)" by force
  obtain r3 w3 where s3: "run_query clients_query None False w2 = (r3, w3)" by force
  obtain r4 w4 where s4: "run_query stock_query None False w3 = (r4, w4)" by force
  have n: "conn_cache v = CachedNone \<Longrightarrow> \<not> holds_connection v" for v
    by (simp add: holds_connection_def)
  from run_query_without_connection [OF assms, of orders_query None False] s1
  have 1: "r1 = Inr RNone" "conn_cache w1 = CachedNone" by simp_all
  from run_query_without_connection [OF n [OF 1(2)], of products_query None False] s2
  have 2: "r2 = Inr RNone" "conn_cache w2 = CachedNone" by simp_all
  from run_query_without_connection [OF n [OF 2(2)], of clients_query None False] s3
  have 3: "r3 = Inr RNone" "conn_cache w3 = CachedNone" by simp_all
  from run_query_without_connection [OF n [OF 3(2)], of stock_query None False] s4
  have 4: "r4 = Inr RNone" "conn_cache w4 = CachedNone" by simp_all
  show ?thesis
    using s1 s2 s3 s4 1 2 3 4 by (simp add: load_all_data_body_def no_data_def)
qed

lemma refresh_data_without_connection:
  assumes "\<not> holds_connection w"
  shows "session_data (refresh_data w) = no_data \<and> conn_cache (refresh_data w) = CachedNone"
proof -
  let ?W = "emit CacheClear (w\<lparr>data_cache := None\<rparr>)"
  have "\<not> holds_connection ?W"
    using assms by (simp add: holds_connection_def split: conn_entry.splits)
  from load_all_data_body_without_connection [OF this] show ?thesis
    by (simp add: refresh_data_def load_all_data_def case_prod_beta)
qed

lemma refresh_data_usable:
  assumes "usable w" "db_execute (visible_db w) orders_query [] \<noteq> Inl OperationalError"
  shows "map fst (session_data (refresh_data w)) = [''orders''] \<and>
         conn_cache (refresh_data w) = CachedConn IsClosed"
proof -
  let ?W = "emit CacheClear (w\<lparr>data_cache := None\<rparr>)"
  have "usable ?W" using assms by (simp add: usable_def split: conn_entry.splits)
  moreover have "db_execute (visible_db ?W) orders_query [] \<noteq> Inl OperationalError"
    using assms by simp
  ultimately show ?thesis
    using load_all_data_body_usable [of ?W]
    by (auto simp: refresh_data_def load_all_data_def)
qed

lemma refresh_data_broken:
  assumes "usable w" "db_execute (visible_db w) orders_query [] = Inl OperationalError"
  shows "session_data (refresh_data w) = [] \<and>
         conn_cache (refresh_data w) = CachedConn IsClosed"
proof -
  let ?W = "emit CacheClear (w\<lparr>data_cache := None\<rparr>)"
  have "usable ?W" using assms by (simp add: usable_def split: conn_entry.splits)
  moreover have "db_execute (visible_db ?W) orders_query (values_or_unit None) = Inl OperationalError"
    using assms by simp
  ultimately show ?thesis
    using run_query_broken [of ?W orders_query None False]
    by (simp add: refresh_data_def load_all_data_def load_all_data_body_def)
qed

lemma refresh_data_twice:
  "(session_data (refresh_data (refresh_data w)) = session_data (refresh_data w)) =
     (\<not> usable w \<or> db_execute (visible_db w) orders_query [] = Inl OperationalError)"
proof (cases "usable w")
  case True
  show ?thesis
  proof (cases "db_execute (visible_db w) orders_query [] = Inl OperationalError")
    case lost: True
    from refresh_data_broken [OF True lost] have
      "session_data (refresh_data w) = []" "conn_cache (refresh_data w) = CachedConn IsClosed"
      by simp_all
    moreover from refresh_data_closed [OF this(2)] have
      "session_data (refresh_data (refresh_data w)) = []" by simp
    ultimately show ?thesis using lost by simp
  next
    case False
    from refresh_data_usable [OF True False] have
      "map fst (session_data (refresh_data w)) = [''orders'']"
      "conn_cache (refresh_data w) = CachedConn IsClosed" by simp_all
    moreover from refresh_data_closed [OF this(2)] have
      "session_data (refresh_data (refresh_data w)) = []" by simp
    ultimately show ?thesis using True False by auto
  qed
next
  case False
  show ?thesis
  proof (cases "holds_connection w")
    case True
    with False have c: "conn_cache w = CachedConn IsClosed"
      by (auto simp: usable_def holds_connection_def split: conn_entry.splits intro: conn_state.exhaust)
    have "conn_cache (refresh_data w) = CachedConn IsClosed"
      by (simp add: refresh_data_closed [OF c])
    from refresh_data_closed [OF this] refresh_data_closed [OF c] False show ?thesis by simp
  next
    case nc: False
    from refresh_data_without_connection [OF nc] have
      1: "session_data (refresh_data w) = no_data" "conn_cache (refresh_data w) = CachedNone"
      by simp_all
    then have "\<not> holds_connection (refresh_data w)" by (simp add: holds_connection_def)
    from refresh_data_without_connection [OF this] 1 False show ?thesis by simp
  qed
qed

lemma orders_refused_usable: "usable orders_refused"
  by (simp add: usable_def orders_refused_def fresh_def db0_def)

section \<open>The lifetime of the connection\<close>



section \<open>Exceptions of the query executor\<close>

text \<open>
  C10: \<^verbatim>\<open>run_query\<close> does propagate an exception. In a process that has called it
  once, the cached connection is closed; the next call raises InterfaceError in
  \<^verbatim>\<open>conn.cursor()\<close>, and again in the handler's \<^verbatim>\<open>conn.rollback()\<close>, which no
  handler catches.
\<close>

theorem second_call_raises:
  "fst (run_query orders_query None False used) = Inl InterfaceError"
  by (simp add: run_query_closed used_closed)

section \<open>A mutation that fails\<close>

text \<open>
  When the server refuses a mutation on a connection that is usable and stays so,
  \<^verbatim>\<open>run_query\<close> rolls back, reports the failure and returns \<^verbatim>\<open>None\<close>; nothing is
  committed, no cache is cleared, and the order handler reports the failure without
  refreshing.
\<close>

lemma refused_mutation_rolls_back:
  assumes "usable w" and "db_execute (visible_db w) q (values_or_unit vs) = Inl e"
    and "e \<noteq> OperationalError"
  shows
    "(case run_query q vs True w of
        (r, w') \<Rightarrow>
          r = Inr RNone \<and> Rollback \<in> set (added w w') \<and> Commit \<notin> set (added w w') \<and>
          Ui (StError (QueryFailed e)) \<in> set (added w w') \<and> CacheClear \<notin> set (added w w') \<and>
          db w' = db w \<and> txn w' = None \<and>
          data_cache w' = data_cache w \<and> session_data w' = session_data w) \<and>
     (q = insert_query \<and> vs = Some [VStr c, VStr p, VInt n, VTime t] \<and>
      c \<noteq> [] \<and> p \<noteq> [] \<and> 0 < n \<longrightarrow>
      (case register_order c p n t w of
         (r, w') \<Rightarrow>
           r = Inr () \<and> shown (added w w') = [StError (QueryFailed e), StError OrderFailed] \<and>
           CacheClear \<notin> set (added w w') \<and> Commit \<notin> set (added w w') \<and>
           db w' = db w \<and> data_cache w' = data_cache w \<and> session_data w' = session_data w))"
  using run_query_failed [OF assms, of True]
  by (auto simp: register_order_def)

lemma refusing_usable: "usable refusing"
  by (simp add: usable_def refusing_def fresh_def db0_def)

lemma refusing_customers:
  "db_execute (visible_db refusing) customers_query (values_or_unit None) =
     Inr (Some [[VStr ''Ana''], [VStr ''Bia'']], db refusing)"
  by (simp add: db_execute_def visible_db_def refusing_def fresh_def db0_def select_rows_def
      query_defs)

lemma breaking_usable: "usable breaking"
  by (simp add: usable_def breaking_def fresh_def db0_def)

lemma breaking_insert:
  "db_execute (visible_db breaking) insert_query
     (values_or_unit (Some [VStr ''Ana'', VStr ''Water'', VInt 2, VTime now0])) =
     Inl OperationalError"
  by (simp add: db_execute_def visible_db_def breaking_def fresh_def db0_def)

text \<open>
  C3: a mutation that fails is not always rolled back and answered with the failure
  indicator. When the connection is lost while the INSERT runs, \<^verbatim>\<open>cursor.execute\<close>
  raises, \<^verbatim>\<open>conn.rollback()\<close> in the handler raises InterfaceError, and that exception
  leaves \<^verbatim>\<open>run_query\<close> and the order handler: no rollback, no error element, no
  \<^verbatim>\<open>None\<close>. The same happens on the orders page of a process whose database refuses
  the INSERT: the form's customer query has closed the cached connection before the
  handler runs, so the INSERT raises in \<^verbatim>\<open>conn.cursor()\<close> and again in the rollback.
\<close>

theorem failing_mutation_raises:
  "fst (run_query insert_query (Some [VStr ''Ana'', VStr ''Water'', VInt 2, VTime now0]) True
      breaking) = Inl InterfaceError \<and>
   Rollback \<notin> set (log (snd (run_query insert_query
      (Some [VStr ''Ana'', VStr ''Water'', VInt 2, VTime now0]) True breaking))) \<and>
   shown (log (snd (run_query insert_query
      (Some [VStr ''Ana'', VStr ''Water'', VInt 2, VTime now0]) True breaking))) = [] \<and>
   fst (register_order ''Ana'' ''Water'' 2 now0 breaking) = Inl InterfaceError \<and>
   fst (order_form_customers refusing) = Inr [VStr [], VStr ''Ana'', VStr ''Bia''] \<and>
   fst (register_order ''Ana'' ''Water'' 2 now0 (snd (order_form_customers refusing))) =
     Inl InterfaceError \<and>
   Rollback \<notin> set (log (snd (register_order ''Ana'' ''Water'' 2 now0
      (snd (order_form_customers refusing))))) \<and>
   StError OrderFailed \<notin> set (shown (log (snd (register_order ''Ana'' ''Water'' 2 now0
      (snd (order_form_customers refusing))))))"
proof -
  let ?vs = "Some [VStr ''Ana'', VStr ''Water'', VInt 2, VTime now0]"
  note b = run_query_broken [OF breaking_usable breaking_insert, of True]
  have b_log: "log breaking = []" by (simp add: breaking_def fresh_def)
  have form: "order_form_customers refusing =
     (Inr [VStr [], VStr ''Ana'', VStr ''Bia''],
      emit (Ui (StSelectbox [VStr [], VStr ''Ana'', VStr ''Bia'']))
        (conn_close ((executing customers_query None False refusing)
           \<lparr>txn := Some (db refusing), cursor := Some [[VStr ''Ana''], [VStr ''Bia'']]\<rparr>)))"
    using run_query_fetched [OF refusing_usable refusing_customers]
    by (simp add: order_form_customers_def)
  have r_log: "log refusing = []" "conn_cache refusing = NotCached"
    by (simp_all add: refusing_def fresh_def)
  show ?thesis
    by (simp add: b b_log form r_log register_order_def run_query_closed)
qed

section \<open>The stock-versus-orders summary without rows\<close>

lemma view_rows_totals: "totals (map stock_vs_orders_row xs) = Some (map sv_total_in_stock xs)"
  by (induction xs) (simp_all add: stock_vs_orders_row_def)

lemma fresh_stock:
  "db_execute (visible_db fresh) stock_vs_orders_query [] = Inr (Some [], db0)"
  by (simp add: db_execute_def visible_db_def fresh_def db0_def select_rows_def query_defs)

lemma fresh_stock_rows: "fst (run_query stock_vs_orders_query None False fresh) = Inr (Rows [])"
  using run_query_fetched [OF fresh_usable, of stock_vs_orders_query None, simplified, OF fresh_stock]
  by simp

text \<open>
  C8, as the claim states it, fails: with zero rows from the view the page shows no
  table and reports no total, not an empty table and a total of 0.
\<close>

theorem empty_stock_summary_reports_no_total:
  "fst (run_query stock_vs_orders_query None False fresh) = Inr (Rows []) \<and>
   StTotal 0 \<notin> set (shown (log (stock_vs_orders_summary fresh))) \<and>
   StTable [] \<notin> set (shown (log (stock_vs_orders_summary fresh)))"
proof -
  have "run_query stock_vs_orders_query None False fresh =
          (Inr (Rows []), conn_close ((executing stock_vs_orders_query None False fresh)
             \<lparr>txn := Some db0, cursor := Some []\<rparr>))"
    using run_query_fetched [OF fresh_usable, of stock_vs_orders_query None, simplified, OF fresh_stock]
    by simp
  then show ?thesis
    by (simp add: stock_vs_orders_summary_def fresh_def)
qed

text \<open>
  C8, amended: when the stock-versus-orders query returns zero rows, the summary shows
  one informational notice that there is no data, and nothing else: no table, no
  total, no error; the database and the snapshot are untouched.
\<close>

theorem empty_stock_summary_shows_notice:
  assumes "fst (run_query stock_vs_orders_query None False w) = Inr (Rows [])"
  shows "shown (added w (stock_vs_orders_summary w)) = [StInfo NoStockData] \<and>
         db (stock_vs_orders_summary w) = db w \<and>
         data_cache (stock_vs_orders_summary w) = data_cache w \<and>
         session_data (stock_vs_orders_summary w) = session_data w"
proof (cases rule: run_query_cases [of w stock_vs_orders_query None False])
  case (fetched rows d')
  with assms show ?thesis by (simp add: stock_vs_orders_summary_def)
qed (use assms in simp_all)

theorem empty_stock_summary_shows_notice_witness:
  "fst (run_query stock_vs_orders_query None False fresh) = Inr (Rows []) \<and>
   shown (added fresh (stock_vs_orders_summary fresh)) = [StInfo NoStockData] \<and>
   session_data (stock_vs_orders_summary fresh) = session_data fresh"
  using empty_stock_summary_shows_notice [OF fresh_stock_rows] fresh_stock_rows by simp

section \<open>Creating an order\<close>

text \<open>
  C1, as the claim states it, fails twice. A submission without a client and one with
  quantity 0 get the same single warning, which names no constraint. And after an
  INSERT that was committed (the table has its second row), the refreshed snapshot
  has no orders at all.
\<close>

theorem create_order_claim_fails:
  "added fresh (snd (register_order [] ''Water'' 2 now0 fresh)) =
     added fresh (snd (register_order ''Ana'' ''Water'' 0 now0 fresh)) \<and>
   fst (register_order ''Bia'' ''Water'' 1 now0 fresh) = Inr () \<and>
   Commit \<in> set (log (snd (register_order ''Bia'' ''Water'' 1 now0 fresh))) \<and>
   length (tb_pedido (db (snd (register_order ''Bia'' ''Water'' 1 now0 fresh)))) = 2 \<and>
   dataset (session_data (snd (register_order ''Bia'' ''Water'' 1 now0 fresh))) ''orders'' = []"
proof -
  let ?vs = "Some [VStr ''Bia'', VStr ''Water'', VInt 1, VTime now0]"
  have ex: "db_execute (visible_db fresh) insert_query (values_or_unit ?vs) =
      Inr (None, db0\<lparr>tb_pedido := tb_pedido db0 @
        [\<lparr>p_Cliente = ''Bia'', p_Produto = ''Water'', p_Quantidade = 1, p_Data = now0,
          p_status = ''em aberto''\<rparr>]\<rparr>)"
    by (simp add: db_execute_def inserted_pedido_def visible_db_def fresh_def db0_def query_defs)
  note rq = run_query_committed [OF fresh_usable ex]
  have valid: "register_order ''Bia'' ''Water'' 1 now0 fresh =
          (Inr (), refresh_data (emit (Ui (StSuccess OrderRegistered))
             (snd (run_query insert_query ?vs True fresh))))"
    by (simp add: register_order_def rq)
  have invalid: "register_order [] ''Water'' 2 now0 fresh = (Inr (), emit (Ui (StWarning FillAllFields)) fresh)"
    "register_order ''Ana'' ''Water'' 0 now0 fresh = (Inr (), emit (Ui (StWarning FillAllFields)) fresh)"
    by (simp_all add: register_order_def)
  show ?thesis
    by (simp add: valid invalid rq refresh_data_closed dataset_def db0_def)
qed

text \<open>
  C1, amended: for a submission with a client, a product and a quantity above 0, the
  handler calls \<^verbatim>\<open>run_query\<close> with \<^verbatim>\<open>commit=True\<close> exactly once, with the fixed INSERT
  text and the tuple (client, product, quantity, submission time). If that call
  commits, the table has gained exactly the row of these four values with status
  \<^verbatim>\<open>'em aberto'\<close>, and the handler has run \<^verbatim>\<open>refresh_data\<close> on the state the INSERT and
  the success message left: the cache entry was cleared, \<^verbatim>\<open>load_all_data\<close> ran its body
  there (its first read, of the orders, is the next call of \<^verbatim>\<open>run_query\<close>, and every
  further call is one of its reads, in order), and what it returned is the new cache
  entry and the session's snapshot; the final state is the one \<^verbatim>\<open>load_all_data\<close> left,
  with that snapshot. If the call does not commit, the database, the cache and the
  snapshot are unchanged. For any other submission there is no call of
  \<^verbatim>\<open>run_query\<close>, nothing changes, and the only effect is one warning, the same
  whichever field is at fault.
\<close>

theorem create_order:
  "case register_order c p n t w of
     (r, w') \<Rightarrow>
       (if c \<noteq> [] \<and> p \<noteq> [] \<and> 0 < n
        then filter (\<lambda>(q, vs, commit). commit) (calls (added w w')) =
               [(insert_query, Some [VStr c, VStr p, VInt n, VTime t], True)] \<and>
             (if Commit \<in> set (added w w')
              then (let w1 = snd (run_query insert_query
                                    (Some [VStr c, VStr p, VInt n, VTime t]) True w);
                        v = emit CacheClear
                              ((emit (Ui (StSuccess OrderRegistered)) w1)\<lparr>data_cache := None\<rparr>)
                    in r = Inr () \<and>
                       db w' = (visible_db w)\<lparr>tb_pedido := tb_pedido (visible_db w) @
                         [\<lparr>p_Cliente = c, p_Produto = p, p_Quantidade = n, p_Data = t,
                           p_status = ''em aberto''\<rparr>]\<rparr> \<and>
                       w' = refresh_data (emit (Ui (StSuccess OrderRegistered)) w1) \<and>
                       w' = (snd (load_all_data v))\<lparr>session_data := fst (load_all_data v)\<rparr> \<and>
                       fst (load_all_data v) = fst (load_all_data_body v) \<and>
                       session_data w' = fst (load_all_data v) \<and>
                       data_cache w' = Some (fst (load_all_data v)) \<and>
                       added w w' =
                         added w w1 @ [Ui (StSuccess OrderRegistered), CacheClear] @
                         added v (snd (load_all_data_body v)) \<and>
                       (\<exists>rest. calls (added w w') =
                          (insert_query, Some [VStr c, VStr p, VInt n, VTime t], True) #
                          (orders_query, None, False) # rest \<and>
                          prefix ((orders_query, None, False) # rest) load_calls))
              else db w' = db w \<and> CacheClear \<notin> set (added w w') \<and>
                   data_cache w' = data_cache w \<and> session_data w' = session_data w)
        else r = Inr () \<and> added w w' = [Ui (StWarning FillAllFields)] \<and>
             db w' = db w \<and> data_cache w' = data_cache w \<and> session_data w' = session_data w)"
proof (cases "c \<noteq> [] \<and> p \<noteq> [] \<and> 0 < n")
  case False
  then show ?thesis by (auto simp: register_order_def)
next
  case valid: True
  let ?vs = "Some [VStr c, VStr p, VInt n, VTime t]"
  show ?thesis
  proof (cases rule: run_query_cases [of w insert_query ?vs True])
    case none
    with valid show ?thesis by (simp add: register_order_def)
  next
    case closed
    with valid show ?thesis by (simp add: register_order_def)
  next
    case unreachable
    with valid show ?thesis by (simp add: register_order_def)
  next
    case broken
    with valid show ?thesis by (simp add: register_order_def)
  next
    case (failed e)
    with valid show ?thesis by (simp add: register_order_def)
  next
    case (committed rs d')
    let ?w1 = "conn_close (emit Commit ((executing insert_query ?vs True w)
                 \<lparr>txn := Some d', cursor := rs, db := d', txn := None\<rparr>))"
    let ?w2 = "emit (Ui (StSuccess OrderRegistered)) ?w1"
    let ?v = "emit CacheClear (?w2\<lparr>data_cache := None\<rparr>)"
    from committed have d': "d' = (visible_db w)\<lparr>tb_pedido := tb_pedido (visible_db w) @
        [\<lparr>p_Cliente = c, p_Produto = p, p_Quantidade = n, p_Data = t, p_status = ''em aberto''\<rparr>]\<rparr>"
      using db_execute_insert [of "visible_db w" c p n t rs d'] by simp
    obtain es where es: "log (refresh_data ?w2) = log ?w2 @ CacheClear # es"
      "prefix (calls es) load_calls" "calls es \<noteq> []"
      "es = added ?v (snd (load_all_data_body ?v))"
      "refresh_data ?w2 =
         (snd (load_all_data_body ?v))
           \<lparr>data_cache := Some (fst (load_all_data_body ?v)),
            session_data := fst (load_all_data_body ?v)\<rparr>"
      "load_all_data ?v =
         (fst (load_all_data_body ?v),
          (snd (load_all_data_body ?v))\<lparr>data_cache := Some (fst (load_all_data_body ?v))\<rparr>)"
      "Commit \<notin> set es" "db (refresh_data ?w2) = db ?w2"
      using refresh_data_effect [of ?w2] by blast
    from load_calls_first [OF es(2) es(3)] obtain rest where
      rest: "calls es = (orders_query, None, False) # rest" by blast
    have r: "register_order c p n t w = (Inr (), refresh_data ?w2)"
      using valid committed by (simp add: register_order_def)
    have w1: "snd (run_query insert_query ?vs True w) = ?w1"
      using committed by simp
    have logs: "added w (refresh_data ?w2) =
        added w ?w1 @ [Ui (StSuccess OrderRegistered), CacheClear] @ es"
      using es(1) by simp
    have c: "calls (added w (refresh_data ?w2)) =
        (insert_query, ?vs, True) # (orders_query, None, False) # rest"
      using es(1) rest by simp
    have f: "filter (\<lambda>(q, vs, commit). commit) (calls (added w (refresh_data ?w2))) =
        [(insert_query, ?vs, True)]"
      using es(1) prefix_load_calls_reads [OF es(2)] by simp
    have cm: "Commit \<in> set (added w (refresh_data ?w2))"
      using es(1) by simp
    have p: "prefix ((orders_query, None, False) # rest) load_calls"
      using es(2) rest by simp
    show ?thesis
      unfolding r w1
      using valid d' es(4-6,8) logs c f cm p
      by (simp add: Let_def)
  next
    case (fetched rows d')
    then show ?thesis by simp
  next
    case (no_result d')
    then show ?thesis by simp
  qed
qed

section \<open>Ambiguous keys\<close>

lemma orders_rows_keyed: "list_all keyed (map pedido_row ps)"
  by (simp add: list_all_iff pedido_row_def)

lemma keyed_shape:
  assumes "keyed r"
  obtains c p q d s where "r = [c, p, q, VTime d, s]"
  using assms by (auto elim: keyed.elims)

lemma keyed_key:
  "keyed r \<Longrightarrow> unique_key r = Inr (py_str (r ! 0) @ ''|'' @ py_str (r ! 1) @ ''|'' @
     strftime (case r ! 3 of VTime d \<Rightarrow> d))"
  by (erule keyed_shape) simp

lemma keyed_length: "keyed r \<Longrightarrow> length r = 5"
  by (erule keyed_shape) simp

lemma same_target_key:
  "keyed r \<Longrightarrow> keyed r' \<Longrightarrow> same_target r r' \<Longrightarrow> unique_key r = unique_key r'"
  by (simp add: keyed_key same_target_def)

lemma unique_keys_keyed:
  "list_all keyed rows \<Longrightarrow>
   \<exists>ks. unique_keys rows = Inr ks \<and> length ks = length rows \<and>
        (\<forall>i<length rows. unique_key (rows ! i) = Inr (ks ! i))"
proof (induction rows)
  case Nil
  then show ?case by simp
next
  case (Cons r rows)
  then obtain ks where ks: "unique_keys rows = Inr ks" "length ks = length rows"
    "\<forall>i<length rows. unique_key (rows ! i) = Inr (ks ! i)" by auto
  from Cons.prems obtain k where k: "unique_key r = Inr k" by (auto simp: keyed_key)
  show ?case
    using ks k by (auto simp: nth_Cons split: nat.splits)
qed

lemma data_frame_exact:
  assumes "rows \<noteq> []" "list_all (\<lambda>r. length r = n) rows"
  shows "data_frame n rows = Inr rows"
proof -
  have "list_all (\<lambda>r. length r \<le> n) rows" "list_ex (\<lambda>r. length r = n) rows"
    using assms by (cases rows; auto simp: list_all_iff list_ex_iff)+
  moreover have "map (\<lambda>r. r @ replicate (n - length r) VNull) rows = rows"
    using assms(2) by (intro map_idI) (simp add: list_all_iff)
  ultimately show ?thesis by (simp add: data_frame_def)
qed

lemma two_matches:
  assumes "i < j" "j < length xs" "P (xs ! i)" "P (xs ! j)"
  shows "1 < length (filter P xs)"
proof -
  have "{i, j} \<subseteq> {n. n < length xs \<and> P (xs ! n)}" using assms by auto
  then have "card {i, j} \<le> card {n. n < length xs \<and> P (xs ! n)}"
    by (intro card_mono) auto
  moreover have "card {i, j} = 2" using assms by simp
  ultimately show ?thesis by (simp add: length_filter_conv_card)
qed


lemma unique_keys_nth:
  "unique_keys rows = Inr ks \<Longrightarrow>
   length ks = length rows \<and> (\<forall>n<length rows. unique_key (rows ! n) = Inr (ks ! n))"
proof (induction rows arbitrary: ks)
  case Nil
  then show ?case by simp
next
  case (Cons r rows)
  from Cons.prems obtain k ks' where k: "unique_key r = Inr k" "unique_keys rows = Inr ks'"
    "ks = k # ks'"
    by (auto split: sum.splits)
  from Cons.IH [OF k(2)] k show ?case
    by (auto simp: nth_Cons split: nat.splits)
qed

lemma data_frame_nth:
  assumes "data_frame n rows = Inr df"
  shows "length df = length rows \<and> (\<forall>k<length rows. length (rows ! k) = n \<longrightarrow> df ! k = rows ! k)"
  using assms by (auto simp: data_frame_def split: if_splits)

lemma data_frame_keyed:
  "list_all keyed rows \<Longrightarrow> rows \<noteq> [] \<Longrightarrow> data_frame 5 rows = Inr rows"
  by (rule data_frame_exact) (simp_all add: list_all_iff keyed_length)

lemma select_order_ambiguous:
  assumes ij: "i < j" "j < length (dataset (session_data w) ''orders'')"
    and ki: "keyed (dataset (session_data w) ''orders'' ! i)"
    and kj: "keyed (dataset (session_data w) ''orders'' ! j)"
    and same: "same_target (dataset (session_data w) ''orders'' ! i)
                 (dataset (session_data w) ''orders'' ! j)"
    and key: "unique_key (dataset (session_data w) ''orders'' ! i) = Inr selected_key"
  shows "case select_order selected_key w of
           (r, w') \<Rightarrow>
             (case r of
                Inr Refused \<Rightarrow> Ui (StWarning MultipleOrders) \<in> set (added w w')
              | Inr TableOnly \<Rightarrow> username w \<noteq> Some ''admin''
              | Inr _ \<Rightarrow> False
              | Inl e \<Rightarrow> \<not> list_all keyed (dataset (session_data w) ''orders'')) \<and>
             calls (added w w') = [] \<and> executes (added w w') = [] \<and>
             db w' = db w \<and> data_cache w' = data_cache w \<and> session_data w' = session_data w"
proof -
  let ?rows = "dataset (session_data w) ''orders''"
  have ne: "?rows \<noteq> []" using ij by auto
  show ?thesis
  proof (cases "data_frame 5 ?rows")
    case (Inl e)
    with ne data_frame_keyed [of ?rows] show ?thesis
      by (auto simp: select_order_def Let_def)
  next
    case (Inr df)
    from data_frame_nth [OF Inr] ij keyed_length [OF ki] keyed_length [OF kj]
    have df: "length df = length ?rows" "df ! i = ?rows ! i" "df ! j = ?rows ! j" by auto
    show ?thesis
    proof (cases "username w = Some ''admin''")
      case False
      with ne Inr show ?thesis by (simp add: select_order_def Let_def)
    next
      case admin: True
      show ?thesis
      proof (cases "unique_keys df")
        case (Inl e)
        have "\<not> list_all keyed ?rows"
        proof
          assume wf: "list_all keyed ?rows"
          with ne Inr have "df = ?rows" using data_frame_keyed [of ?rows] by simp
          with Inl unique_keys_keyed [OF wf] show False by auto
        qed
        with ne Inr admin Inl show ?thesis by (simp add: select_order_def Let_def)
      next
        case ks: (Inr ks)
        from unique_keys_nth [OF ks] have len: "length ks = length df"
          and nth: "\<forall>n<length df. unique_key (df ! n) = Inr (ks ! n)" by simp_all
        from ij df(1) have "i < length df" "j < length df" by simp_all
        with nth have "unique_key (df ! i) = Inr (ks ! i)" "unique_key (df ! j) = Inr (ks ! j)"
          by simp_all
        with df have "unique_key (?rows ! i) = Inr (ks ! i)" "unique_key (?rows ! j) = Inr (ks ! j)"
          by simp_all
        with key same_target_key [OF ki kj same] have "ks ! i = selected_key" "ks ! j = selected_key"
          by auto
        then have "1 < length (filter (\<lambda>(r, k). k = selected_key) (zip df ks))"
          using ij len df(1) by (intro two_matches [of i j]) auto
        moreover have "selected_key \<noteq> []"
          using key keyed_key [OF ki] by auto
        ultimately show ?thesis
          using ne Inr admin ks by (simp add: select_order_def Let_def)
      qed
    qed
  qed
qed

text \<open>
  C4: when two rows of the cached orders have the same client, product and timestamp,
  selecting their key never reaches the edit form, whose buttons issue the update and
  the delete: for the administrator the selection is refused with a warning, and for
  any other user the key is not offered at all. (If the dataset holds a row that is not
  an order row, building the frame or the keys may raise instead.) No statement is
  issued and nothing changes.
\<close>

theorem ambiguous_key_refused:
  assumes "i < j" and "j < length (dataset (session_data w) ''orders'')"
    and "keyed (dataset (session_data w) ''orders'' ! i)"
    and "keyed (dataset (session_data w) ''orders'' ! j)"
    and "same_target (dataset (session_data w) ''orders'' ! i)
           (dataset (session_data w) ''orders'' ! j)"
    and "unique_key (dataset (session_data w) ''orders'' ! i) = Inr selected_key"
  shows "case select_order selected_key w of
           (r, w') \<Rightarrow>
             (\<forall>row. r \<noteq> Inr (EditForm row)) \<and>
             (if list_all keyed (dataset (session_data w) ''orders'')
              then (if username w = Some ''admin''
                    then r = Inr Refused \<and> Ui (StWarning MultipleOrders) \<in> set (added w w')
                    else r = Inr TableOnly)
              else r = Inr Refused \<or> r = Inr TableOnly \<or> (\<exists>e. r = Inl e)) \<and>
             calls (added w w') = [] \<and> executes (added w w') = [] \<and>
             db w' = db w \<and> data_cache w' = data_cache w \<and> session_data w' = session_data w"
proof -
  obtain r w' where s: "select_order selected_key w = (r, w')" by force
  from select_order_ambiguous [OF assms] s have
    out: "case r of
            Inr Refused \<Rightarrow> Ui (StWarning MultipleOrders) \<in> set (added w w')
          | Inr TableOnly \<Rightarrow> username w \<noteq> Some ''admin''
          | Inr _ \<Rightarrow> False
          | Inl e \<Rightarrow> \<not> list_all keyed (dataset (session_data w) ''orders'')"
    and frame: "calls (added w w') = []" "executes (added w w') = []" "db w' = db w"
      "data_cache w' = data_cache w" "session_data w' = session_data w"
    by simp_all
  have admin: "r \<noteq> Inr TableOnly" if "username w = Some ''admin''"
    using out that by (auto split: sum.splits selection.splits)
  have other: "r \<noteq> Inr Refused" if "username w \<noteq> Some ''admin''"
  proof
    assume "r = Inr Refused"
    with s that show False
      by (auto simp: select_order_def Let_def split: if_splits sum.splits list.splits)
  qed
  show ?thesis
    using out frame admin other
    by (cases r; simp add: s split: selection.splits) auto
qed

lemma twice_orders: "dataset (session_data twice) ''orders'' = [row0, row0]"
  by (simp add: twice_def dataset_def)

theorem ambiguous_key_refused_witness:
  "keyed (dataset (session_data twice) ''orders'' ! 0) \<and>
   keyed (dataset (session_data twice) ''orders'' ! 1) \<and>
   same_target (dataset (session_data twice) ''orders'' ! 0)
     (dataset (session_data twice) ''orders'' ! 1) \<and>
   unique_key (dataset (session_data twice) ''orders'' ! 0) = Inr ''Ana|Water|2024-05-01 12:30:00'' \<and>
   fst (select_order ''Ana|Water|2024-05-01 12:30:00'' twice) = Inr Refused \<and>
   session_data (snd (select_order ''Ana|Water|2024-05-01 12:30:00'' twice)) = session_data twice \<and>
   calls (added twice (snd (select_order ''Ana|Water|2024-05-01 12:30:00'' twice))) = []"
proof -
  have k: "unique_key row0 = Inr ''Ana|Water|2024-05-01 12:30:00''"
    by (simp add: row0_def strftime_def month_to_second_def pad2_def digit_def now0_def
        show_nat.simps)
  have h0: "(0::nat) < 1" by simp
  have h1: "1 < length (dataset (session_data twice) ''orders'')"
    by (simp add: twice_orders)
  have h2: "keyed (dataset (session_data twice) ''orders'' ! 0)"
    by (simp add: twice_orders row0_def)
  have h3: "keyed (dataset (session_data twice) ''orders'' ! 1)"
    by (simp add: twice_orders row0_def)
  have h4: "same_target (dataset (session_data twice) ''orders'' ! 0)
     (dataset (session_data twice) ''orders'' ! 1)"
    by (simp add: twice_orders same_target_def)
  have h5: "unique_key (dataset (session_data twice) ''orders'' ! 0) =
     Inr ''Ana|Water|2024-05-01 12:30:00''"
    by (simp add: twice_orders k)
  have wf: "list_all keyed (dataset (session_data twice) ''orders'')"
    by (simp add: twice_orders row0_def)
  have u: "username twice = Some ''admin''" by (simp add: twice_def fresh_def)
  show ?thesis
    using ambiguous_key_refused [OF h0 h1 h2 h3 h4 h5] h2 h3 h4 h5 wf u
    by (simp add: case_prod_beta)
qed

section \<open>Statement texts and parameters\<close>

text \<open>
  C6: the text \<^verbatim>\<open>run_query\<close> hands to \<^verbatim>\<open>cursor.execute\<close> is its \<open>query\<close> argument,
  unchanged, and the values go beside it as the parameter tuple. The menu page calls
  \<^verbatim>\<open>run_query\<close> with the two fixed texts, the selected category being the parameter
  of the second; the order form with the fixed INSERT text, the fields being its
  parameters, and then at most the four fixed reads of the reload. So two runs of a
  page, whatever the inputs and the states, submit the same text at every position
  both reach.
\<close>

theorem statement_text_is_fixed:
  "executes (added w (snd (run_query query vals commit w))) =
     (if usable w then [(query, values_or_unit vals)] else []) \<and>
   (calls (added w (snd (menu_page selected_category w))) = [(categories_query, None, False)] \<or>
    calls (added w (snd (menu_page selected_category w))) =
      [(categories_query, None, False),
       (menu_products_query, Some [VStr selected_category], False)]) \<and>
   (if customer_name \<noteq> [] \<and> product \<noteq> [] \<and> 0 < quantity
    then \<exists>rest. calls (added w (snd (register_order customer_name product quantity now w))) =
           (insert_query, Some [VStr customer_name, VStr product, VInt quantity, VTime now], True)
             # rest \<and>
           prefix rest load_calls
    else calls (added w (snd (register_order customer_name product quantity now w))) = []) \<and>
   (let a = texts (added w (snd (menu_page selected_category w)));
        b = texts (added w' (snd (menu_page selected_category' w')));
        k = min (length a) (length b)
    in take k a = take k b) \<and>
   (let a = texts (added w (snd (register_order customer_name product quantity now w)));
        b = texts (added w' (snd (register_order customer_name' product' quantity' now' w')));
        k = min (length a) (length b)
    in take k a = take k b)"
proof -
  have run: "executes (added w (snd (run_query query vals commit w))) =
     (if usable w then [(query, values_or_unit vals)] else [])"
    using run_query_trace [of query vals commit w] by auto
  have menu: "prefix (texts (added v (snd (menu_page c v)))) [categories_query, menu_products_query]"
    for v c
    using menu_page_calls [of v c] by (auto simp: texts_def)
  have reg: "prefix (texts (added v (snd (register_order c p n t v))))
               (insert_query # map fst load_calls)" for v c p n t
    using register_order_calls [of c p n v t]
    by (auto simp: texts_def map_mono_prefix split: if_splits)
  show ?thesis
    using run menu_page_calls [of w selected_category]
      register_order_calls [of customer_name product quantity w now]
      common_prefix_agree [OF menu [of w selected_category] menu [of w' selected_category']]
      common_prefix_agree [OF reg [of w customer_name product quantity now]
        reg [of w' customer_name' product' quantity' now']]
    by (simp add: Let_def)
qed

section \<open>Loading after the connection was closed\<close>

text \<open>
  C5: a load in a fresh process whose database refuses the orders query. The orders
  dataset is the empty list, but the three other datasets are not populated from
  their queries: they are missing from the snapshot, although the products query and
  the clients query, run on their own, return rows. The first call of \<^verbatim>\<open>run_query\<close>
  closed the cached connection; the second raises, and the handler of
  \<^verbatim>\<open>load_all_data\<close> abandons the remaining assignments.
\<close>

theorem load_abandons_other_datasets:
  "fst (load_all_data orders_refused) = [(''orders'', [])] \<and>
   map_of (fst (load_all_data orders_refused)) ''products'' = None \<and>
   map_of (fst (load_all_data orders_refused)) ''clients'' = None \<and>
   map_of (fst (load_all_data orders_refused)) ''stock'' = None \<and>
   fst (run_query products_query None False orders_refused) =
     Inr (Rows [[VStr ''Acme'', VStr ''Water'', VInt 10, VInt 3, VInt 30, VTime now0]]) \<and>
   fst (run_query clients_query None False orders_refused) = Inr (Rows [[VStr ''Ana'']])"
proof -
  have ex: "db_execute (visible_db orders_refused) orders_query (values_or_unit None) = Inl DatabaseError"
    by (simp add: db_execute_def visible_db_def orders_refused_def fresh_def db0_def)
  have "data_cache orders_refused = None" by (simp add: orders_refused_def fresh_def)
  then have l: "fst (load_all_data orders_refused) = [(''orders'', [])]"
    using load_all_data_body_usable [OF orders_refused_usable] ex
      run_query_failed [OF orders_refused_usable ex, of False]
    by (auto simp: load_all_data_def)
  have p: "db_execute (visible_db orders_refused) products_query (values_or_unit None) =
             Inr (Some [[VStr ''Acme'', VStr ''Water'', VInt 10, VInt 3, VInt 30, VTime now0]],
                  db orders_refused)"
    by (simp add: db_execute_def visible_db_def orders_refused_def fresh_def db0_def
        select_rows_def query_defs order_by_desc_def product_row_def)
  have c: "db_execute (visible_db orders_refused) clients_query (values_or_unit None) =
             Inr (Some [[VStr ''Ana'']], db orders_refused)"
    by (simp add: db_execute_def visible_db_def orders_refused_def fresh_def db0_def
        select_rows_def query_defs)
  show ?thesis
    using run_query_fetched [OF orders_refused_usable p]
      run_query_fetched [OF orders_refused_usable c]
    by (simp add: l)
qed

text \<open>
  C7: invalidate-and-reload twice in a row, in a fresh process with a fixed database.
  The first snapshot has the orders, the second is empty.
\<close>

theorem refresh_twice_differs:
  "session_data (refresh_data fresh) = [(''orders'', [row0])] \<and>
   session_data (refresh_data (refresh_data fresh)) = []"
proof -
  let ?W = "emit CacheClear (fresh\<lparr>data_cache := None\<rparr>)"
  have W: "?W = fresh\<lparr>log := [CacheClear]\<rparr>" by (simp add: fresh_def emit_def)
  have "usable ?W" by (simp add: usable_def fresh_def db0_def)
  have ex: "db_execute (visible_db ?W) orders_query (values_or_unit None) = Inr (Some [row0], db0)"
    using fresh_orders by (simp add: row0_def visible_db_def fresh_def)
  then have "db_execute (visible_db ?W) orders_query [] \<noteq> Inl OperationalError" by simp
  from load_all_data_body_usable [OF \<open>usable ?W\<close> this] obtain rs w1 where
    b: "run_query orders_query None False ?W = (Inr rs, w1)"
       "load_all_data_body ?W =
          ([(''orders'', or_empty rs)],
           emit (Ui (StError (LoadFailed InterfaceError)))
             (conn_close (emit (Call products_query None False) w1)))" by blast
  have "rs = Rows [row0]"
    using b(1) run_query_fetched [OF \<open>usable ?W\<close> ex] by simp
  then have first: "refresh_data fresh =
      (emit (Ui (StError (LoadFailed InterfaceError)))
         (conn_close (emit (Call products_query None False) w1)))
      \<lparr>data_cache := Some [(''orders'', [row0])], session_data := [(''orders'', [row0])]\<rparr>"
    using b(2) by (simp add: refresh_data_def load_all_data_def)
  then have "conn_cache (refresh_data fresh) = CachedConn IsClosed" by simp
  from refresh_data_closed [OF this] first show ?thesis by simp
qed

text \<open>
  C9: in a fresh process whose orders table has an order of Ana, the loaded snapshot
  has no clients dataset at all (a lookup gives the empty list), not the distinct
  client names of the orders table. The customer list of the order form does read
  \<^verbatim>\<open>tb_clientes\<close>: it offers Ana and Bia.
\<close>

theorem clients_dataset_missing:
  "map_of (fst (load_all_data fresh)) ''clients'' = None \<and>
   dataset (fst (load_all_data fresh)) ''clients'' = [] \<and>
   sort (remdups (map p_Cliente (tb_pedido (db fresh)))) = [''Ana''] \<and>
   fst (order_form_customers fresh) = Inr [VStr [], VStr ''Ana'', VStr ''Bia'']"
proof -
  have "data_cache fresh = None" by (simp add: fresh_def)
  then have l: "fst (load_all_data fresh) = [(''orders'', [row0])]"
    by (simp add: load_all_data_def load_fresh)
  have ex: "db_execute (visible_db fresh) customers_query [] =
              Inr (Some [[VStr ''Ana''], [VStr ''Bia'']], db0)"
    by (simp add: db_execute_def visible_db_def fresh_def db0_def select_rows_def query_defs)
  have "fst (order_form_customers fresh) = Inr [VStr [], VStr ''Ana'', VStr ''Bia'']"
    using run_query_fetched [OF fresh_usable, of customers_query None, simplified, OF ex]
    by (simp add: order_form_customers_def)
  then show ?thesis
    by (simp add: l dataset_def) (simp add: fresh_def db0_def)
qed

end
